theory Spec2Isabelle
  imports Complex_Main
begin

section \<open>JavaScript values\<close>

text \<open>
  The normalizer of \<^verbatim>\<open>src/normalizer.ts\<close> works on untyped JavaScript objects: it reads
  properties that may be missing, tests them for truthiness, and builds new objects with
  the spread operator. A value is a \<open>jsval\<close>; an object that the code spreads is a map
  from property names to values (\<open>js_object\<close>). A property that is present and holds
  \<^verbatim>\<open>undefined\<close> is \<open>Some Undefined\<close>, a missing one is \<open>None\<close>: the spread
  operator copies the first and not the second, so the two must be kept apart.

  A number that the code only passes on is a real (the finite doubles are among them;
  \<^verbatim>\<open>NaN\<close> and the infinities are not modelled). The one number the code computes with,
  the alpha of a color, is a double with its IEEE rounding: see \<open>double\<close> below.
\<close>

datatype jsval =
    Undefined
  | Null
  | Bool bool
  | Num real
  | Str string
  | Obj "(string \<times> jsval) list"

type_synonym js_object = "string \<rightharpoonup> jsval"

text \<open>\<^verbatim>\<open>o.k\<close>: reading a missing property gives \<^verbatim>\<open>undefined\<close>.\<close>

definition get :: "js_object \<Rightarrow> string \<Rightarrow> jsval" where
  "get obj k = (case obj k of None \<Rightarrow> Undefined | Some v \<Rightarrow> v)"

text \<open>The truthiness test of \<^verbatim>\<open>v ? a : b\<close>, \<^verbatim>\<open>!v\<close> and \<^verbatim>\<open>if (v)\<close>.\<close>

fun truthy :: "jsval \<Rightarrow> bool" where
  "truthy Undefined = False"
| "truthy Null = False"
| "truthy (Bool b) = b"
| "truthy (Num n) = (n \<noteq> 0)"
| "truthy (Str s) = (s \<noteq> [])"
| "truthy (Obj kvs) = True"

text \<open>\<^verbatim>\<open>v ?? d\<close>: the default replaces \<^verbatim>\<open>undefined\<close> and \<^verbatim>\<open>null\<close> only.\<close>

fun nullish_coalesce :: "jsval \<Rightarrow> jsval \<Rightarrow> jsval" where
  "nullish_coalesce Undefined d = d"
| "nullish_coalesce Null d = d"
| "nullish_coalesce v d = v"

text \<open>
  \<^verbatim>\<open>{k: v, ...obj}\<close> at one property: the value written first is kept only when the
  spread object has no property of that name.
\<close>

fun spread_over :: "jsval \<Rightarrow> jsval option \<Rightarrow> jsval option" where
  "spread_over v None = Some v"
| "spread_over v (Some w) = Some w"

text \<open>
  What the code throws. \<open>TypeError\<close> and \<open>Error\<close> carry the message of the source's
  \<^verbatim>\<open>throw\<close>; \<open>ColorParseError\<close> is the failure of the color parsing library on the
  value it carries.
\<close>

datatype js_error =
    TypeError string
  | Error string
  | ColorParseError jsval

section \<open>Colors\<close>

text \<open>
  \<^verbatim>\<open>Color(colorString)\<close> is the parser of the external \<^verbatim>\<open>color\<close> package. It is a
  parameter of every function that uses it: \<open>None\<close> when the parser throws, otherwise
  the two readings the code takes, \<^verbatim>\<open>clr.hex()\<close> (with its leading \<^verbatim>\<open>#\<close>) and
  \<^verbatim>\<open>clr.alpha()\<close>, a double.
\<close>

text \<open>
  A finite IEEE double is \<open>mantissa \<times> 2 ^ exponent\<close> with \<open>\<bar>mantissa\<bar> < 2 ^ 53\<close> and
  \<open>-1074 \<le> exponent \<le> 971\<close>; \<open>double_val\<close> is the number it denotes.
\<close>

record double =
  mantissa :: int
  exponent :: int

definition double_val :: "double \<Rightarrow> real" where
  "double_val d = of_int (mantissa d) * 2 powi (exponent d)"

text \<open>How many bits a natural number has beyond 53.\<close>

fun excess_bits :: "nat \<Rightarrow> nat" where
  "excess_bits n = (if n < 2 ^ 53 then 0 else Suc (excess_bits (n div 2)))"

declare excess_bits.simps [simp del]

text \<open>
  The double nearest to the exact number \<open>m \<times> 2 ^ e\<close>, ties to the even mantissa: the
  rounding of every IEEE operation. When \<open>m\<close> has \<open>k\<close> bits too many, the low \<open>k\<close> bits
  are cut off and the rest is rounded up when they are more than half, or exactly half
  with an odd rest. Exponents are not bounded here. For the product of a double with
  100 that changes nothing: such a product is rounded only when it is at least
  \<open>2 ^ 53 \<times> 2 ^ -1074\<close>, a normal number, and it overflows only for operands far above
  the alphas of colors.
\<close>

definition round_to_double :: "int \<Rightarrow> int \<Rightarrow> double" where
  "round_to_double m e =
     (let k = excess_bits (nat \<bar>m\<bar>) in
      if k = 0 then \<lparr>mantissa = m, exponent = e\<rparr>
      else
        (let q = \<bar>m\<bar> div 2 ^ k;
             r = \<bar>m\<bar> mod 2 ^ k;
             half = 2 ^ (k - 1);
             q' = (if half < r \<or> (r = half \<and> odd q) then q + 1 else q)
         in \<lparr>mantissa = sgn m * q', exponent = e + int k\<rparr>))"

text \<open>\<^verbatim>\<open>a * b\<close> on doubles: the exact product, rounded.\<close>

definition double_times :: "double \<Rightarrow> double \<Rightarrow> double" where
  "double_times a b = round_to_double (mantissa a * mantissa b) (exponent a + exponent b)"

text \<open>The literal \<^verbatim>\<open>100\<close>.\<close>

definition hundred :: double where
  "hundred = \<lparr>mantissa = 100, exponent = 0\<rparr>"

record parsed_color =
  hex :: string
  alpha :: double

type_synonym color_parser = "jsval \<Rightarrow> parsed_color option"

definition toUpperCase_char :: "char \<Rightarrow> char" where
  "toUpperCase_char c =
     (let n = (of_char c :: nat) in if 97 \<le> n \<and> n \<le> 122 then char_of (n - 32) else c)"

text \<open>\<^verbatim>\<open>s.toUpperCase()\<close> on ASCII text, which is all \<^verbatim>\<open>hex()\<close> produces.\<close>

definition toUpperCase :: "string \<Rightarrow> string" where
  "toUpperCase s = map toUpperCase_char s"

text \<open>\<^verbatim>\<open>s.substring(1)\<close>.\<close>

definition substring1 :: "string \<Rightarrow> string" where
  "substring1 s = drop 1 s"

definition normalizeHexColor :: "color_parser \<Rightarrow> jsval \<Rightarrow> js_error + string" where
  "normalizeHexColor Color colorString =
     (case Color colorString of
        None \<Rightarrow> Inl (ColorParseError colorString)
      | Some clr \<Rightarrow> Inr (toUpperCase (substring1 (hex clr))))"

text \<open>
  \<^verbatim>\<open>Math.round\<close> takes the number its argument denotes to the nearest integer, a tie
  to the greater one, as \<^const>\<open>round\<close> does: \<open>round x = \<lfloor>x + 1/2\<rfloor>\<close>. Its result here
  is at most 100, so \<^verbatim>\<open>100 - Math.round(...)\<close> is exact.
\<close>

definition Math_round :: "real \<Rightarrow> int" where
  "Math_round x = \<lfloor>x + 1 / 2\<rfloor>"

text \<open>The object \<^verbatim>\<open>{type: "solid", color: hexColor, alpha: n}\<close>.\<close>

definition ComplexColor :: "string \<Rightarrow> int \<Rightarrow> jsval" where
  "ComplexColor hexColor n =
     Obj [(''type'', Str ''solid''), (''color'', Str hexColor), (''alpha'', Num (of_int n))]"

definition normalizeHexOrComplexColor :: "color_parser \<Rightarrow> jsval \<Rightarrow> js_error + jsval" where
  "normalizeHexOrComplexColor Color colorString =
     (case Color colorString of
        None \<Rightarrow> Inl (ColorParseError colorString)
      | Some clr \<Rightarrow>
          (let hexColor = toUpperCase (substring1 (hex clr)) in
           if double_val (alpha clr) = 1 then Inr (Str hexColor)
           else Inr (ComplexColor hexColor
                  (100 - Math_round (double_val (double_times (alpha clr) hundred))))))"

section \<open>Coordinates\<close>

definition isDigit :: "char \<Rightarrow> bool" where
  "isDigit c = (let n = (of_char c :: nat) in 48 \<le> n \<and> n \<le> 57)"

text \<open>
  \<^verbatim>\<open>PERCENTAGE_REGEXP.test(x)\<close> for \<^verbatim>\<open>/^\d+%$/\<close>: one or more of the digits 0 to 9,
  then a percent sign, then the end of the string.
\<close>

definition PERCENTAGE_REGEXP_test :: "string \<Rightarrow> bool" where
  "PERCENTAGE_REGEXP_test x = (takeWhile isDigit x \<noteq> [] \<and> dropWhile isDigit x = ''%'')"

definition invalid_position_message :: "string \<Rightarrow> string" where
  "invalid_position_message x =
     [CHR 0x22] @ x @ [CHR 0x22] @ '' is invalid position; string positions must be of format ''
       @ [CHR 0x27] @ ''[0-9]+%'' @ [CHR 0x27]"

definition normalizeCoordinate :: "jsval \<Rightarrow> real \<Rightarrow> js_error + jsval" where
  "normalizeCoordinate x default' =
     (case x of
        Str s \<Rightarrow>
          if \<not> PERCENTAGE_REGEXP_test s then Inl (TypeError (invalid_position_message s))
          else Inr (Str s)
      | Num n \<Rightarrow> Inr (Num n)
      | _ \<Rightarrow> Inr (Num default'))"

section \<open>Children of a node\<close>

text \<open>
  What a node's \<^verbatim>\<open>children\<close> property can hold: an element, a string, a number, an
  array of such values, or anything else (\<^verbatim>\<open>null\<close>, \<^verbatim>\<open>undefined\<close>, a boolean, an object
  that is no element), which \<open>OtherChild\<close> stands for. \<^verbatim>\<open>TextChild\<close> of the source is
  \<open>text_element child\<close>.
\<close>

datatype 'e child =
    Element 'e
  | StringChild string
  | NumberChild real
  | ArrayChild "'e child list"
  | OtherChild

text \<open>
  The elements that occur in text. A bullet has a \<^verbatim>\<open>TextChild\<close> as children, its
  \<^verbatim>\<open>style\<close>, \<^verbatim>\<open>rtlMode\<close> and \<^verbatim>\<open>lang\<close>, and the remaining properties (the rest pattern
  \<^verbatim>\<open>...bulletProps\<close>) as a list of pairs. A link has a string as children and its
  remaining properties (\<^verbatim>\<open>url\<close>, \<^verbatim>\<open>slide\<close>, \<^verbatim>\<open>tooltip\<close>). \<open>TextOther\<close> is a valid element
  that is neither. A property that is not given reads as \<open>Undefined\<close>; a missing
  \<^verbatim>\<open>style\<close> is \<open>None\<close>.
\<close>

datatype text_element =
    TextBullet "text_element child" "js_object option" jsval jsval "(string \<times> jsval) list"
  | TextLink string "js_object option" jsval jsval "(string \<times> jsval) list"
  | TextOther string "js_object option" jsval jsval

text \<open>
  Modelled from the spec: \<^verbatim>\<open>flattenChildren\<close> of \<^verbatim>\<open>./util\<close>, which is not among the source
  files. The spec describes it as the utility that, given a heterogeneous child value
  (single node, array, nested arrays, null/undefined/boolean noise), returns a flat
  ordered list. The reducer of \<^verbatim>\<open>normalizeText\<close> types the entries of that list as
  \<^verbatim>\<open>string | number | ReactElement\<close>, so strings and numbers are kept.
\<close>

datatype 'e flat_child = FElement 'e | FString string | FNumber real

fun flattenChildren :: "'e child \<Rightarrow> 'e flat_child list" where
  "flattenChildren (Element e) = [FElement e]"
| "flattenChildren (StringChild s) = [FString s]"
| "flattenChildren (NumberChild n) = [FNumber n]"
| "flattenChildren (ArrayChild cs) = concat (map flattenChildren cs)"
| "flattenChildren OtherChild = []"

text \<open>
  Modelled from the spec: \<^verbatim>\<open>React.isValidElement\<close> and \<^verbatim>\<open>isReactElementOrElementArray\<close>
  of \<^verbatim>\<open>./util\<close>, which is not among the source files. The spec speaks of "a single/array
  of rich-text marker nodes": an element, or an array whose entries are all elements.
\<close>

fun isValidElement :: "'e child \<Rightarrow> bool" where
  "isValidElement (Element e) = True"
| "isValidElement c = False"

fun isReactElementOrElementArray :: "'e child \<Rightarrow> bool" where
  "isReactElementOrElementArray (Element e) = True"
| "isReactElementOrElementArray (ArrayChild cs) = list_all isValidElement cs"
| "isReactElementOrElementArray c = False"

section \<open>Array methods that may throw\<close>

text \<open>
  \<^verbatim>\<open>xs.reduce(f, acc)\<close> and \<^verbatim>\<open>xs.map(f)\<close> where \<open>f\<close> may throw: the elements are visited
  in order and the first exception ends the loop.
\<close>

fun reduce :: "('b \<Rightarrow> 'a \<Rightarrow> js_error + 'b) \<Rightarrow> 'a list \<Rightarrow> 'b \<Rightarrow> js_error + 'b" where
  "reduce f [] acc = Inr acc"
| "reduce f (x # xs) acc = (case f acc x of Inl err \<Rightarrow> Inl err | Inr acc' \<Rightarrow> reduce f xs acc')"

lemma reduce_cong [fundef_cong]:
  "xs = ys \<Longrightarrow> a = b \<Longrightarrow> (\<And>acc x. x \<in> set ys \<Longrightarrow> f acc x = g acc x)
     \<Longrightarrow> reduce f xs a = reduce g ys b"
  by (induction ys arbitrary: xs a b) (auto split: sum.splits)

fun array_map :: "('a \<Rightarrow> js_error + 'b) \<Rightarrow> 'a list \<Rightarrow> js_error + 'b list" where
  "array_map f [] = Inr []"
| "array_map f (x # xs) =
     (case f x of
        Inl err \<Rightarrow> Inl err
      | Inr y \<Rightarrow> (case array_map f xs of Inl err \<Rightarrow> Inl err | Inr ys \<Rightarrow> Inr (y # ys)))"

lemma array_map_cong [fundef_cong]:
  "xs = ys \<Longrightarrow> (\<And>x. x \<in> set ys \<Longrightarrow> f x = g x) \<Longrightarrow> array_map f xs = array_map g ys"
  by (induction ys arbitrary: xs) (auto split: sum.splits)

section \<open>Text runs\<close>

text \<open>
  \<^verbatim>\<open>InternalTextPart\<close>. \<^verbatim>\<open>text\<close> and \<^verbatim>\<open>style\<close> are always there; each other property
  is \<open>None\<close> when the object has no such property and \<open>Some v\<close> when it has it with value
  \<open>v\<close> (possibly \<open>Undefined\<close>).
\<close>

record InternalTextPart =
  part_text :: string
  part_rtlMode :: "jsval option"
  part_lang :: "jsval option"
  part_link :: "jsval option"
  part_bullet :: "jsval option"
  part_style :: js_object
  part_breakLine :: "jsval option"

text \<open>\<^verbatim>\<open>{text: s, style: {}}\<close>.\<close>

definition plainTextPart :: "string \<Rightarrow> InternalTextPart" where
  "plainTextPart s =
     \<lparr>part_text = s, part_rtlMode = None, part_lang = None, part_link = None,
      part_bullet = None, part_style = Map.empty, part_breakLine = None\<rparr>"

text \<open>\<^verbatim>\<open>style || {}\<close>.\<close>

definition styleOrEmpty :: "js_object option \<Rightarrow> js_object" where
  "styleOrEmpty style = (case style of None \<Rightarrow> Map.empty | Some s \<Rightarrow> s)"

text \<open>\<^verbatim>\<open>style?.color ? normalizeHexColor(style.color) : undefined\<close>.\<close>

definition normalizeStyleColor :: "color_parser \<Rightarrow> js_object option \<Rightarrow> js_error + jsval" where
  "normalizeStyleColor Color style =
     (let color = get (styleOrEmpty style) ''color'' in
      if truthy color then
        (case normalizeHexColor Color color of Inl err \<Rightarrow> Inl err | Inr h \<Rightarrow> Inr (Str h))
      else Inr Undefined)"

text \<open>
  The callback of \<^verbatim>\<open>normalizedChildren.map((childPart, index) => ...)\<close> in the bullet
  branch; \<open>n\<close> is \<^verbatim>\<open>normalizedChildren.length\<close>. \<^verbatim>\<open>rtlMode\<close>, \<^verbatim>\<open>lang\<close> and \<^verbatim>\<open>bullet\<close> stand
  before \<^verbatim>\<open>...childPart\<close> in the object literal, \<^verbatim>\<open>style\<close> and \<^verbatim>\<open>breakLine\<close> after it.
\<close>

definition bulletChildPart ::
  "jsval \<Rightarrow> jsval \<Rightarrow> jsval \<Rightarrow> js_object \<Rightarrow> nat \<Rightarrow> nat \<times> InternalTextPart \<Rightarrow> InternalTextPart" where
  "bulletChildPart rtlMode lang bullet parentStyle n ic =
     (case ic of (index, childPart) \<Rightarrow>
        childPart\<lparr>
          part_rtlMode := spread_over rtlMode (part_rtlMode childPart),
          part_lang := spread_over lang (part_lang childPart),
          part_bullet := spread_over (if index = 0 then bullet else Undefined) (part_bullet childPart),
          part_style := parentStyle ++ part_style childPart,
          part_breakLine := Some (Bool (index + 1 \<ge> n))\<rparr>)"

text \<open>The \<^verbatim>\<open>link\<close> variable of the reducer, for a link element with properties \<open>props\<close>.\<close>

definition textLink :: "(string \<times> jsval) list \<Rightarrow> jsval" where
  "textLink props =
     (if map_of props ''url'' \<noteq> None then
        Obj [(''url'', get (map_of props) ''url''), (''tooltip'', get (map_of props) ''tooltip'')]
      else if truthy (get (map_of props) ''slide'') then
        Obj [(''slide'', get (map_of props) ''slide''), (''tooltip'', get (map_of props) ''tooltip'')]
      else Undefined)"

text \<open>
  \<^verbatim>\<open>{text: children, rtlMode, lang, link, style: {...(style || {}), color: ...}}\<close>: all
  four properties are written, whatever their values.
\<close>

definition elementTextPart ::
  "string \<Rightarrow> jsval \<Rightarrow> jsval \<Rightarrow> jsval \<Rightarrow> js_object option \<Rightarrow> jsval \<Rightarrow> InternalTextPart" where
  "elementTextPart children rtlMode lang link style color =
     \<lparr>part_text = children, part_rtlMode = Some rtlMode, part_lang = Some lang,
      part_link = Some link, part_bullet = None,
      part_style = (styleOrEmpty style)(''color'' \<mapsto> color), part_breakLine = None\<rparr>"

text \<open>
  \<^verbatim>\<open>Object.keys(bulletProps).length ? bulletProps : true\<close>: the bullet marker value.
\<close>

definition bulletValue :: "(string \<times> jsval) list \<Rightarrow> jsval" where
  "bulletValue bulletProps = (if bulletProps \<noteq> [] then Obj bulletProps else Bool True)"

text \<open>
  The callback of \<^verbatim>\<open>flattenChildren(t).reduce(...)\<close>. It calls \<^verbatim>\<open>normalizeText\<close> on the
  children of a bullet; that recursive call is the parameter \<open>normalizeText'\<close> here, so
  that the callback can be named.
\<close>

definition textPartsReducer ::
  "color_parser \<Rightarrow> (real \<Rightarrow> string) \<Rightarrow> (text_element child \<Rightarrow> js_error + InternalTextPart list)
     \<Rightarrow> InternalTextPart list \<Rightarrow> text_element flat_child \<Rightarrow> js_error + InternalTextPart list" where
  "textPartsReducer Color toString normalizeText' textParts el =
     (case el of
        FElement (TextBullet children style rtlMode lang bulletProps) \<Rightarrow>
          (let bullet = bulletValue bulletProps in
           case normalizeText' children of
             Inl err \<Rightarrow> Inl err
           | Inr normalizedChildren \<Rightarrow>
               (case normalizeStyleColor Color style of
                  Inl err \<Rightarrow> Inl err
                | Inr normalizedParentColor \<Rightarrow>
                    (let parentStyle = (styleOrEmpty style)(''color'' \<mapsto> normalizedParentColor);
                         childParts =
                           map (bulletChildPart rtlMode lang bullet parentStyle
                                  (length normalizedChildren))
                             (enumerate 0 normalizedChildren)
                     in Inr (textParts @ childParts))))
      | FElement (TextLink children style rtlMode lang props) \<Rightarrow>
          (case normalizeStyleColor Color style of
             Inl err \<Rightarrow> Inl err
           | Inr color \<Rightarrow>
               Inr (textParts @ [elementTextPart children rtlMode lang (textLink props) style color]))
      | FElement (TextOther children style rtlMode lang) \<Rightarrow>
          (case normalizeStyleColor Color style of
             Inl err \<Rightarrow> Inl err
           | Inr color \<Rightarrow>
               Inr (textParts @ [elementTextPart children rtlMode lang Undefined style color]))
      | FString s \<Rightarrow> Inr (textParts @ [plainTextPart s])
      | FNumber n \<Rightarrow> Inr (textParts @ [plainTextPart (toString n)]))"

lemma textPartsReducer_cong [fundef_cong]:
  "el = el' \<Longrightarrow> textParts = textParts'
     \<Longrightarrow> (\<And>children style rtlMode lang bulletProps.
            el' = FElement (TextBullet children style rtlMode lang bulletProps)
            \<Longrightarrow> f children = g children)
     \<Longrightarrow> textPartsReducer Color toString f textParts el
         = textPartsReducer Color toString g textParts' el'"
  by (simp add: textPartsReducer_def split: flat_child.splits text_element.splits)

text \<open>Termination: an element of the flattened list is smaller than the child it came from.\<close>

lemma size_flattenChildren:
  "FElement e \<in> set (flattenChildren t) \<Longrightarrow> f e < size_child f t"
proof (induction t)
  case (ArrayChild cs)
  then obtain c where c: "c \<in> set cs" "FElement e \<in> set (flattenChildren c)"
    by auto
  then have "f e < size_child f c"
    using ArrayChild.IH by blast
  moreover have "size_child f c \<le> size_list (size_child f) cs"
    using c(1) by (simp add: size_list_estimation')
  ultimately show ?case by simp
qed simp_all

text \<open>
  \<^verbatim>\<open>toString\<close> is \<^verbatim>\<open>Number.prototype.toString\<close>, a parameter: how a number prints is the
  language's business, and no property below depends on it.
\<close>

function normalizeText ::
  "color_parser \<Rightarrow> (real \<Rightarrow> string) \<Rightarrow> text_element child \<Rightarrow> js_error + InternalTextPart list" where
  "normalizeText Color toString t =
     (if isReactElementOrElementArray t then
        reduce (textPartsReducer Color toString (\<lambda>children. normalizeText Color toString children))
          (flattenChildren t) []
      else
        (case t of
           ArrayChild ts \<Rightarrow>
             reduce (\<lambda>prev cur.
               case normalizeText Color toString cur of
                 Inl err \<Rightarrow> Inl err
               | Inr parts \<Rightarrow> Inr (prev @ parts)) ts []
         | StringChild s \<Rightarrow> Inr [plainTextPart s]
         | NumberChild n \<Rightarrow> Inr [plainTextPart (toString n)]
         | _ \<Rightarrow> Inl (TypeError
             ''Invalid TextChild found; only strings/numbers/arrays of them are accepted'')))"
  by pat_completeness auto

termination
  apply (relation "measure (\<lambda>(Color, toString, t). size_child size t)")
    apply simp
   apply simp
   apply (drule size_flattenChildren [where f = size])
   apply simp
  apply (simp add: size_list_estimation' less_Suc_eq_le)
  done

declare normalizeText.simps [simp del]

section \<open>Visual nodes\<close>

text \<open>
  The elements a slide holds, by their type tag, with the properties the normalizer
  reads: \<^verbatim>\<open>style\<close> first (\<open>None\<close> when the node has none), then \<^verbatim>\<open>children\<close> (\<open>None\<close> for
  \<^verbatim>\<open>undefined\<close>), \<^verbatim>\<open>colSpan\<close> and \<^verbatim>\<open>rowSpan\<close>, \<^verbatim>\<open>src\<close>, \<^verbatim>\<open>type\<close>, \<^verbatim>\<open>rows\<close> (a cell is a string
  or a node), and \<^verbatim>\<open>x1, y1, x2, y2\<close>. \<open>UnknownNode\<close> is an element of any other type.

  Modelled from the spec: the type tags of \<^verbatim>\<open>NodeTypes\<close> and the predicates \<^verbatim>\<open>isLine\<close>,
  \<^verbatim>\<open>isText\<close>, \<^verbatim>\<open>isTableCell\<close>, \<^verbatim>\<open>isImage\<close>, \<^verbatim>\<open>isShape\<close>, \<^verbatim>\<open>isTable\<close> of \<^verbatim>\<open>./nodes\<close>, which is not
  among the source files: the spec lists the tags text, image, shape, table, table-cell
  and line, and the predicates test the tag, which is the constructor here.
\<close>

datatype visual_node =
    TextNode "js_object option" "text_element child option"
  | TableCellNode "js_object option" "text_element child option" jsval jsval
  | ImageNode "js_object option" jsval
  | ShapeNode "js_object option" jsval "text_element child option"
  | TableNode "js_object option" "(string + visual_node) list list"
  | LineNode "js_object option" jsval jsval jsval jsval
  | UnknownNode string "js_object option"

fun node_type :: "visual_node \<Rightarrow> string" where
  "node_type (TextNode style children) = ''text''"
| "node_type (TableCellNode style children colSpan rowSpan) = ''table-cell''"
| "node_type (ImageNode style src) = ''image''"
| "node_type (ShapeNode style type children) = ''shape''"
| "node_type (TableNode style rows) = ''table''"
| "node_type (LineNode style x1 y1 x2 y2) = ''line''"
| "node_type (UnknownNode tag style) = tag"

fun props_style :: "visual_node \<Rightarrow> js_object option" where
  "props_style (TextNode style children) = style"
| "props_style (TableCellNode style children colSpan rowSpan) = style"
| "props_style (ImageNode style src) = style"
| "props_style (ShapeNode style type children) = style"
| "props_style (TableNode style rows) = style"
| "props_style (LineNode style x1 y1 x2 y2) = style"
| "props_style (UnknownNode tag style) = style"

text \<open>
  \<^verbatim>\<open>InternalSlideObject\<close>. A text object has \<^verbatim>\<open>colSpan\<close> and \<^verbatim>\<open>rowSpan\<close> properties only when
  it comes from a table cell node. A shape's text is \<open>None\<close> for \<^verbatim>\<open>null\<close>. The cells of a
  table are what \<^verbatim>\<open>normalizeSlideObject\<close> returned for them, whose declared type
  includes \<^verbatim>\<open>null\<close> (\<open>None\<close>): the cast \<^verbatim>\<open>as InternalTableCell\<close> checks nothing.
\<close>

datatype InternalSlideObject =
    InternalText "InternalTextPart list" js_object "jsval option" "jsval option"
  | InternalImage jsval js_object
  | InternalShape jsval "InternalTextPart list option" js_object
  | InternalTable "InternalSlideObject option list list" js_object
  | InternalLine jsval jsval jsval jsval js_object

fun kind :: "InternalSlideObject \<Rightarrow> string" where
  "kind (InternalText parts style colSpan rowSpan) = ''text''"
| "kind (InternalImage src style) = ''image''"
| "kind (InternalShape type parts style) = ''shape''"
| "kind (InternalTable rows style) = ''table''"
| "kind (InternalLine x1 y1 x2 y2 style) = ''line''"

definition normalizeImageSrc :: "jsval \<Rightarrow> jsval" where
  "normalizeImageSrc src =
     (case src of Str s \<Rightarrow> Obj [(''kind'', Str ''path''), (''path'', Str s)] | _ \<Rightarrow> src)"

definition DEFAULT_FONT_SIZE :: real where
  "DEFAULT_FONT_SIZE = 18"

definition DEFAULT_FONT_FACE :: string where
  "DEFAULT_FONT_FACE = ''Arial''"

text \<open>\<^verbatim>\<open>c ? normalizeHexColor(c) : null\<close>.\<close>

definition colorOrNull :: "color_parser \<Rightarrow> jsval \<Rightarrow> js_error + jsval" where
  "colorOrNull Color color =
     (if truthy color then
        (case normalizeHexColor Color color of Inl err \<Rightarrow> Inl err | Inr h \<Rightarrow> Inr (Str h))
      else Inr Null)"

definition normalizeTextType ::
  "color_parser \<Rightarrow> (real \<Rightarrow> string) \<Rightarrow> js_object \<Rightarrow> text_element child option \<Rightarrow> js_object
     \<Rightarrow> js_error + InternalTextPart list \<times> js_object" where
  "normalizeTextType Color toString style children normalizedCoordinates =
     (case (case children of None \<Rightarrow> Inr [] | Some c \<Rightarrow> normalizeText Color toString c) of
        Inl err \<Rightarrow> Inl err
      | Inr parts \<Rightarrow>
          (case colorOrNull Color (get style ''color'') of
             Inl err \<Rightarrow> Inl err
           | Inr color \<Rightarrow>
               Inr (parts,
                 (style ++ normalizedCoordinates)
                   (''color'' \<mapsto> color,
                    ''fontFace'' \<mapsto> nullish_coalesce (get style ''fontFace'') (Str DEFAULT_FONT_FACE),
                    ''fontSize'' \<mapsto> nullish_coalesce (get style ''fontSize'') (Num DEFAULT_FONT_SIZE)))))"

text \<open>The object \<^verbatim>\<open>normalizedCoordinates\<close> of \<^verbatim>\<open>normalizeSlideObject\<close>.\<close>

definition normalizeCoordinates :: "js_object \<Rightarrow> js_error + js_object" where
  "normalizeCoordinates style =
     (case normalizeCoordinate (get style ''x'') 0 of Inl err \<Rightarrow> Inl err | Inr x \<Rightarrow>
      case normalizeCoordinate (get style ''y'') 0 of Inl err \<Rightarrow> Inl err | Inr y \<Rightarrow>
      case normalizeCoordinate (get style ''w'') 1 of Inl err \<Rightarrow> Inl err | Inr w \<Rightarrow>
      case normalizeCoordinate (get style ''h'') 1 of Inl err \<Rightarrow> Inl err | Inr h \<Rightarrow>
        Inr [''x'' \<mapsto> x, ''y'' \<mapsto> y, ''w'' \<mapsto> w, ''h'' \<mapsto> h])"

text \<open>What a table cell that is a string becomes.\<close>

definition stringCell :: "string \<Rightarrow> InternalSlideObject" where
  "stringCell cell =
     InternalText [plainTextPart cell]
       [''x'' \<mapsto> Num 0, ''y'' \<mapsto> Num 0, ''w'' \<mapsto> Num 0, ''h'' \<mapsto> Num 0, ''color'' \<mapsto> Null]
       None None"

text \<open>Termination: a cell node is smaller than the table that holds it.\<close>

lemma size_cell_in_rows:
  fixes cellNode :: visual_node and row :: "(string + visual_node) list"
  assumes r: "row \<in> set rows" and c: "Inr cellNode \<in> set row"
  shows "size cellNode < Suc (size_list (size_list (size_sum (\<lambda>x. 0) size)) rows)"
proof -
  have "size_sum (\<lambda>x. 0) size (Inr cellNode :: string + visual_node)
          \<le> size_list (size_sum (\<lambda>x. 0) size) row"
    using c by (rule size_list_estimation') simp
  moreover have "size_list (size_sum (\<lambda>x. 0) size) row
          \<le> size_list (size_list (size_sum (\<lambda>x. 0) size)) rows"
    using r by (rule size_list_estimation') simp
  ultimately show ?thesis by simp
qed

function normalizeSlideObject ::
  "color_parser \<Rightarrow> (real \<Rightarrow> string) \<Rightarrow> visual_node \<Rightarrow> js_error + InternalSlideObject option" where
  "normalizeSlideObject Color toString node =
     (case props_style node of
        None \<Rightarrow> Inl (TypeError (''A '' @ node_type node @ '' object is missing style attribute''))
      | Some style \<Rightarrow>
          (case node of
             LineNode style' x1 y1 x2 y2 \<Rightarrow>
               (case colorOrNull Color (get style ''color'') of
                  Inl err \<Rightarrow> Inl err
                | Inr color \<Rightarrow>
                    Inr (Some (InternalLine x1 y1 x2 y2
                      [''color'' \<mapsto> color,
                       ''width'' \<mapsto> nullish_coalesce (get style ''width'') Null])))
           | _ \<Rightarrow>
               (case normalizeCoordinates style of
                  Inl err \<Rightarrow> Inl err
                | Inr normalizedCoordinates \<Rightarrow>
                    (case node of
                       TextNode style' children \<Rightarrow>
                         (case normalizeTextType Color toString style children normalizedCoordinates of
                            Inl err \<Rightarrow> Inl err
                          | Inr (parts, textStyle) \<Rightarrow> Inr (Some (InternalText parts textStyle None None)))
                     | TableCellNode style' children colSpan rowSpan \<Rightarrow>
                         (case normalizeTextType Color toString style children normalizedCoordinates of
                            Inl err \<Rightarrow> Inl err
                          | Inr (parts, textStyle) \<Rightarrow>
                              Inr (Some (InternalText parts textStyle (Some colSpan) (Some rowSpan))))
                     | ImageNode style' src \<Rightarrow>
                         Inr (Some (InternalImage (normalizeImageSrc src)
                           (normalizedCoordinates
                              (''sizing'' \<mapsto> nullish_coalesce (get style ''sizing'') Null))))
                     | ShapeNode style' type children \<Rightarrow>
                         (case (case children of
                                  None \<Rightarrow> Inr None
                                | Some c \<Rightarrow>
                                    (case normalizeText Color toString c of
                                       Inl err \<Rightarrow> Inl err
                                     | Inr parts \<Rightarrow> Inr (Some parts))) of
                            Inl err \<Rightarrow> Inl err
                          | Inr parts \<Rightarrow>
                              (case (if truthy (get style ''backgroundColor'')
                                     then normalizeHexOrComplexColor Color (get style ''backgroundColor'')
                                     else Inr Null) of
                                 Inl err \<Rightarrow> Inl err
                               | Inr backgroundColor \<Rightarrow>
                                   (case colorOrNull Color (get style ''borderColor'') of
                                      Inl err \<Rightarrow> Inl err
                                    | Inr borderColor \<Rightarrow>
                                        Inr (Some (InternalShape type parts
                                          (normalizedCoordinates
                                             (''backgroundColor'' \<mapsto> backgroundColor,
                                              ''borderColor'' \<mapsto> borderColor,
                                              ''borderWidth'' \<mapsto>
                                                 nullish_coalesce (get style ''borderWidth'') Null)))))))
                     | TableNode style' rows \<Rightarrow>
                         (case array_map (\<lambda>row.
                                 array_map (\<lambda>cell.
                                   case cell of
                                     Inl s \<Rightarrow> Inr (Some (stringCell s))
                                   | Inr cellNode \<Rightarrow> normalizeSlideObject Color toString cellNode) row)
                                 rows of
                            Inl err \<Rightarrow> Inl err
                          | Inr normalized \<Rightarrow>
                              (case colorOrNull Color (get style ''borderColor'') of
                                 Inl err \<Rightarrow> Inl err
                               | Inr borderColor \<Rightarrow>
                                   Inr (Some (InternalTable normalized
                                     (normalizedCoordinates
                                        (''borderColor'' \<mapsto> borderColor,
                                         ''borderWidth'' \<mapsto>
                                            nullish_coalesce (get style ''borderWidth'') Null,
                                         ''margin'' \<mapsto> nullish_coalesce (get style ''margin'') Null))))))
                     | _ \<Rightarrow> Inl (Error ''unknown slide object'')))))"
  by pat_completeness auto

termination
  apply (relation "measure (\<lambda>(Color, toString, node). size node)")
   apply simp
  apply (auto dest: size_cell_in_rows)
  done

declare normalizeSlideObject.simps [simp del]

section \<open>Slides and the presentation\<close>

definition isPresent :: "'a option \<Rightarrow> bool" where
  "isPresent x = (x \<noteq> None)"

text \<open>
  \<^verbatim>\<open>if (props.children)\<close>. \<open>OtherChild\<close> is taken as falsy; a truthy value it could
  stand for flattens to the empty list, which gives the same objects.
\<close>

fun truthy_child :: "'e child \<Rightarrow> bool" where
  "truthy_child (Element e) = True"
| "truthy_child (StringChild s) = (s \<noteq> [])"
| "truthy_child (NumberChild n) = (n \<noteq> 0)"
| "truthy_child (ArrayChild cs) = True"
| "truthy_child OtherChild = False"

text \<open>
  \<^verbatim>\<open>flattenChildren(props.children).map(normalizeSlideObject).filter(isPresent)\<close>, which
  both slide normalizers run. An entry that is a string or a number has no \<^verbatim>\<open>props\<close>, so
  reading \<^verbatim>\<open>node.props.style\<close> throws.
\<close>

definition normalizeChildObjects ::
  "color_parser \<Rightarrow> (real \<Rightarrow> string) \<Rightarrow> visual_node child \<Rightarrow> js_error + InternalSlideObject list" where
  "normalizeChildObjects Color toString children =
     (case array_map (\<lambda>c.
             case c of
               FElement node \<Rightarrow> normalizeSlideObject Color toString node
             | _ \<Rightarrow> Inl (TypeError ''Cannot read properties of undefined''))
           (flattenChildren children) of
        Inl err \<Rightarrow> Inl err
      | Inr objs \<Rightarrow> Inr (map the (filter isPresent objs)))"

record SlideProps =
  slide_masterName :: jsval
  slide_hidden :: jsval
  slide_style :: "js_object option"
  slide_notes :: jsval
  slide_children :: "visual_node child"

record MasterSlideProps =
  master_name :: string
  master_style :: "js_object option"
  master_children :: "visual_node child"

record SlideBase =
  objects :: "InternalSlideObject list"
  backgroundColor :: jsval
  backgroundImage :: jsval

record InternalSlide = SlideBase +
  masterName :: jsval
  hidden :: jsval
  notes' :: jsval

record InternalMasterSlide = SlideBase +
  name :: string

text \<open>
  \<^verbatim>\<open>props?.style?.backgroundColor ? normalizeHexOrComplexColor(...) : null\<close>.
\<close>

definition normalizeBackgroundColor :: "color_parser \<Rightarrow> js_object option \<Rightarrow> js_error + jsval" where
  "normalizeBackgroundColor Color style =
     (let c = get (styleOrEmpty style) ''backgroundColor'' in
      if truthy c then normalizeHexOrComplexColor Color c else Inr Null)"

definition normalizeSlide ::
  "color_parser \<Rightarrow> (real \<Rightarrow> string) \<Rightarrow> SlideProps \<Rightarrow> js_error + InternalSlide" where
  "normalizeSlide Color toString props =
     (case normalizeBackgroundColor Color (slide_style props) of
        Inl err \<Rightarrow> Inl err
      | Inr bg \<Rightarrow>
          (let slide =
             \<lparr>objects = [],
              backgroundColor = bg,
              backgroundImage =
                nullish_coalesce (get (styleOrEmpty (slide_style props)) ''backgroundImage'') Null,
              masterName = nullish_coalesce (slide_masterName props) Null,
              hidden = nullish_coalesce (slide_hidden props) (Bool False),
              notes' = slide_notes props\<rparr>
           in if truthy_child (slide_children props) then
                (case normalizeChildObjects Color toString (slide_children props) of
                   Inl err \<Rightarrow> Inl err
                 | Inr objs \<Rightarrow> Inr (slide\<lparr>objects := objs\<rparr>))
              else Inr slide))"

definition normalizeMasterSlide ::
  "color_parser \<Rightarrow> (real \<Rightarrow> string) \<Rightarrow> MasterSlideProps \<Rightarrow> js_error + InternalMasterSlide" where
  "normalizeMasterSlide Color toString props =
     (case normalizeBackgroundColor Color (master_style props) of
        Inl err \<Rightarrow> Inl err
      | Inr bg \<Rightarrow>
          (let slide =
             \<lparr>objects = [],
              backgroundColor = bg,
              backgroundImage =
                nullish_coalesce (get (styleOrEmpty (master_style props)) ''backgroundImage'') Null,
              name = master_name props\<rparr>
           in if truthy_child (master_children props) then
                (case normalizeChildObjects Color toString (master_children props) of
                   Inl err \<Rightarrow> Inl err
                 | Inr objs \<Rightarrow> Inr (slide\<lparr>objects := objs\<rparr>))
              else Inr slide))"

text \<open>
  The children of the presentation node, by type tag: a slide, a master slide, or an
  element of any other type (with its tag).
\<close>

datatype presentation_child =
    SlideElement SlideProps
  | MasterSlideElement MasterSlideProps
  | OtherElement string

record PresentationProps =
  props_layout :: jsval
  props_author :: jsval
  props_company :: jsval
  props_revision :: jsval
  props_subject :: jsval
  props_title :: jsval
  props_children :: "presentation_child child"

record InternalPresentation =
  slides :: "InternalSlide list"
  masterSlides :: "string \<rightharpoonup> InternalMasterSlide"
  layout :: jsval
  author :: jsval
  company :: jsval
  revision :: jsval
  subject :: jsval
  title :: jsval

text \<open>\<^verbatim>\<open>children.filter((child) => child.type === NodeTypes.SLIDE)\<close>, as the props kept.\<close>

definition slideChildren :: "presentation_child flat_child list \<Rightarrow> SlideProps list" where
  "slideChildren children = [props. FElement (SlideElement props) \<leftarrow> children]"

text \<open>\<^verbatim>\<open>children.filter((child) => child.type === NodeTypes.MASTER_SLIDE)\<close>.\<close>

definition masterSlideChildren :: "presentation_child flat_child list \<Rightarrow> MasterSlideProps list" where
  "masterSlideChildren children = [props. FElement (MasterSlideElement props) \<leftarrow> children]"

text \<open>\<^verbatim>\<open>Object.fromEntries\<close>: the entries are written in order, a later one over an earlier.\<close>

definition fromEntries :: "(string \<times> 'v) list \<Rightarrow> (string \<rightharpoonup> 'v)" where
  "fromEntries entries = fold (\<lambda>(k, v) obj. obj(k \<mapsto> v)) entries Map.empty"

definition normalizeJsx ::
  "color_parser \<Rightarrow> (real \<Rightarrow> string) \<Rightarrow> PresentationProps \<Rightarrow> js_error + InternalPresentation" where
  "normalizeJsx Color toString props =
     (let pres =
        \<lparr>slides = [],
         masterSlides = Map.empty,
         layout = nullish_coalesce (props_layout props) (Str ''16x9''),
         author = props_author props,
         company = props_company props,
         revision = props_revision props,
         subject = props_subject props,
         title = props_title props\<rparr>
      in if truthy_child (props_children props) then
           (let children = flattenChildren (props_children props) in
            case array_map (normalizeSlide Color toString) (slideChildren children) of
              Inl err \<Rightarrow> Inl err
            | Inr normalizedSlides \<Rightarrow>
                (case array_map (normalizeMasterSlide Color toString) (masterSlideChildren children) of
                   Inl err \<Rightarrow> Inl err
                 | Inr normalizedMasterSlides \<Rightarrow>
                     Inr (pres\<lparr>slides := normalizedSlides,
                               masterSlides :=
                                 fromEntries (map (\<lambda>slide. (name slide, slide)) normalizedMasterSlides)\<rparr>)))
         else Inr pres)"

section \<open>Notions the claims use\<close>

text \<open>
  The concatenation of the specification, "concatenate the normalization of each
  element, preserving order": the results are taken in order, and the first failure is
  the failure of the whole.
\<close>

fun concat_results :: "(js_error + 'a list) list \<Rightarrow> js_error + 'a list" where
  "concat_results [] = Inr []"
| "concat_results (r # rs) =
     (case r of
        Inl err \<Rightarrow> Inl err
      | Inr ys \<Rightarrow> (case concat_results rs of Inl err \<Rightarrow> Inl err | Inr zs \<Rightarrow> Inr (ys @ zs)))"

text \<open>Whether a text child holds a bullet element, at any depth of arrays.\<close>

fun containsBullet :: "text_element child \<Rightarrow> bool" where
  "containsBullet (Element (TextBullet children style rtlMode lang bulletProps)) = True"
| "containsBullet (Element e) = False"
| "containsBullet (ArrayChild cs) = list_ex containsBullet cs"
| "containsBullet c = False"

text \<open>\<^verbatim>\<open>run.style[key]\<close>, \<open>None\<close> when the style has no such property.\<close>

definition style_at :: "string \<Rightarrow> InternalTextPart \<Rightarrow> jsval option" where
  "style_at key run = part_style run key"

section \<open>Example inputs\<close>

text \<open>
  A color parser and a number printer to evaluate the functions at concrete inputs.
  \<open>exampleColor\<close> answers as the \<^verbatim>\<open>color\<close> package does on the few strings it knows and
  throws on every other value; the double nearest to 0.995 is
  \<open>8962163258467287 \<times> 2 ^ -53\<close>.
\<close>

definition exampleColor :: color_parser where
  "exampleColor c =
     (if c = Str ''red'' then Some \<lparr>hex = ''#FF0000'', alpha = \<lparr>mantissa = 1, exponent = 0\<rparr>\<rparr>
      else if c = Str ''#00ff00'' then
        Some \<lparr>hex = ''#00FF00'', alpha = \<lparr>mantissa = 1, exponent = 0\<rparr>\<rparr>
      else if c = Str ''rgba(0,0,0,0.25)'' then
        Some \<lparr>hex = ''#000000'', alpha = \<lparr>mantissa = 1, exponent = - 2\<rparr>\<rparr>
      else if c = Str ''rgba(0,0,0,0.125)'' then
        Some \<lparr>hex = ''#000000'', alpha = \<lparr>mantissa = 1, exponent = - 3\<rparr>\<rparr>
      else if c = Str ''rgba(0,0,0,0.995)'' then
        Some \<lparr>hex = ''#000000'', alpha = \<lparr>mantissa = 8962163258467287, exponent = - 53\<rparr>\<rparr>
      else None)"

definition exampleToString :: "real \<Rightarrow> string" where
  "exampleToString n = (if n = 1 then ''1'' else if n = 2 then ''2'' else ''0'')"

definition exampleSlideProps :: SlideProps where
  "exampleSlideProps =
     \<lparr>slide_masterName = Undefined, slide_hidden = Undefined, slide_style = None,
      slide_notes = Undefined,
      slide_children =
        ArrayChild
          [Element (LineNode (Some Map.empty) (Num 0) (Num 0) (Num 1) (Num 1)),
           OtherChild,
           Element (ImageNode (Some Map.empty) (Str ''a.png''))]\<rparr>"

definition exampleBullet :: "text_element child" where
  "exampleBullet =
     Element (TextBullet (ArrayChild [StringChild ''a'', StringChild ''b''])
       None Undefined Undefined [(''indent'', Num 10)])"

definition exampleNestedBullet :: "text_element child" where
  "exampleNestedBullet =
     Element (TextBullet
       (ArrayChild
          [StringChild ''a'',
           Element (TextBullet (StringChild ''b'') None Undefined Undefined [])])
       None Undefined Undefined [])"

definition exampleColoredBullet :: "text_element child" where
  "exampleColoredBullet =
     Element (TextBullet
       (ArrayChild
          [StringChild ''a'',
           Element (TextLink ''b'' None Undefined Undefined
             [(''url'', Str ''https://example.com'')])])
       (Some [''color'' \<mapsto> Str ''red'', ''bold'' \<mapsto> Bool True]) Undefined Undefined [])"

definition exampleRtlBullet :: "text_element child" where
  "exampleRtlBullet =
     Element (TextBullet
       (ArrayChild
          [StringChild ''a'',
           Element (TextLink ''b'' None Undefined Undefined
             [(''url'', Str ''https://example.com'')])])
       None (Bool True) (Str ''he'') [])"

definition exampleMasterProps1 :: MasterSlideProps where
  "exampleMasterProps1 =
     \<lparr>master_name = ''m'', master_style = Some [''backgroundColor'' \<mapsto> Str ''red''],
      master_children = OtherChild\<rparr>"

definition exampleMasterProps2 :: MasterSlideProps where
  "exampleMasterProps2 =
     \<lparr>master_name = ''m'', master_style = Some [''backgroundColor'' \<mapsto> Str ''#00ff00''],
      master_children = OtherChild\<rparr>"

definition exampleSlideProps2 :: SlideProps where
  "exampleSlideProps2 =
     \<lparr>slide_masterName = Str ''m'', slide_hidden = Bool True, slide_style = None,
      slide_notes = Str ''second'', slide_children = OtherChild\<rparr>"

definition examplePresentationProps :: PresentationProps where
  "examplePresentationProps =
     \<lparr>props_layout = Undefined, props_author = Undefined, props_company = Undefined,
      props_revision = Undefined, props_subject = Undefined, props_title = Str ''Example'',
      props_children =
        ArrayChild
          [Element (MasterSlideElement exampleMasterProps1),
           Element (OtherElement ''div''),
           Element (SlideElement exampleSlideProps),
           StringChild ''x'',
           Element (MasterSlideElement exampleMasterProps2),
           Element (SlideElement exampleSlideProps2)]\<rparr>"

text \<open>
  The alpha of the specification, in its words: \<open>round (100 \<times> (1 - alphaFraction))\<close>, on
  the number the alpha denotes, with the rounding of \<^verbatim>\<open>Math.round\<close>.
\<close>

definition spec_alpha :: "real \<Rightarrow> int" where
  "spec_alpha a = round (100 * (1 - a))"

section \<open>Colors and coordinates\<close>

lemma PERCENTAGE_REGEXP_test_iff:
  "PERCENTAGE_REGEXP_test x \<longleftrightarrow> (\<exists>ds. ds \<noteq> [] \<and> list_all isDigit ds \<and> x = ds @ ''%'')"
proof
  assume "PERCENTAGE_REGEXP_test x"
  then have a: "takeWhile isDigit x \<noteq> []" and b: "dropWhile isDigit x = ''%''"
    by (simp_all add: PERCENTAGE_REGEXP_test_def)
  have "x = takeWhile isDigit x @ dropWhile isDigit x" by simp
  with a b show "\<exists>ds. ds \<noteq> [] \<and> list_all isDigit ds \<and> x = ds @ ''%''"
    by (metis list_all_iff set_takeWhileD)
next
  assume "\<exists>ds. ds \<noteq> [] \<and> list_all isDigit ds \<and> x = ds @ ''%''"
  then obtain ds where ds: "ds \<noteq> []" "list_all isDigit ds" "x = ds @ ''%''" by blast
  have nd: "\<not> isDigit CHR ''%''" by (simp add: isDigit_def)
  have "takeWhile isDigit x = ds" "dropWhile isDigit x = ''%''"
    using ds nd by (simp_all add: list_all_iff takeWhile_append2 dropWhile_append2)
  then show "PERCENTAGE_REGEXP_test x"
    using ds by (simp add: PERCENTAGE_REGEXP_test_def)
qed

text \<open>
  C5: \<^verbatim>\<open>normalizeCoordinate\<close> returns a number unchanged; returns a string unchanged when
  it is one or more digits followed by a percent sign and nothing else, and otherwise
  throws the \<^verbatim>\<open>TypeError\<close> whose message quotes the string; and returns the default for
  \<^verbatim>\<open>null\<close> and \<^verbatim>\<open>undefined\<close>. The four examples of the specification are the last four
  conjuncts.
\<close>

theorem normalizeCoordinate_spec:
  "normalizeCoordinate (Num n) d = Inr (Num n)
   \<and> normalizeCoordinate (Str s) d =
       (if \<exists>ds. ds \<noteq> [] \<and> list_all isDigit ds \<and> s = ds @ ''%'' then Inr (Str s)
        else Inl (TypeError ([CHR 0x22] @ s @ [CHR 0x22]
               @ '' is invalid position; string positions must be of format ''
               @ [CHR 0x27] @ ''[0-9]+%'' @ [CHR 0x27])))
   \<and> normalizeCoordinate Null d = Inr (Num d)
   \<and> normalizeCoordinate Undefined d = Inr (Num d)
   \<and> normalizeCoordinate (Num 50) 0 = Inr (Num 50)
   \<and> normalizeCoordinate (Str ''50%'') 0 = Inr (Str ''50%'')
   \<and> normalizeCoordinate Undefined 7 = Inr (Num 7)
   \<and> normalizeCoordinate (Str ''50'') 0 = Inl (TypeError (invalid_position_message ''50''))"
proof -
  have 1: "normalizeCoordinate (Str s) d =
       (if \<exists>ds. ds \<noteq> [] \<and> list_all isDigit ds \<and> s = ds @ ''%'' then Inr (Str s)
        else Inl (TypeError ([CHR 0x22] @ s @ [CHR 0x22]
               @ '' is invalid position; string positions must be of format ''
               @ [CHR 0x27] @ ''[0-9]+%'' @ [CHR 0x27])))"
    unfolding PERCENTAGE_REGEXP_test_iff [symmetric]
    by (simp add: normalizeCoordinate_def invalid_position_message_def)
  have 2: "normalizeCoordinate (Str ''50%'') 0 = Inr (Str ''50%'')"
    by (simp add: normalizeCoordinate_def PERCENTAGE_REGEXP_test_def isDigit_def)
  have 3: "normalizeCoordinate (Str ''50'') 0 = Inl (TypeError (invalid_position_message ''50''))"
    by (simp add: normalizeCoordinate_def PERCENTAGE_REGEXP_test_def isDigit_def)
  show ?thesis
    using 1 2 3 by (simp add: normalizeCoordinate_def)
qed

theorem normalizeCoordinate_spec_witness:
  "normalizeCoordinate (Str ''7%'') 3 = Inr (Str ''7%'')
   \<and> normalizeCoordinate Null 3 = Inr (Num 3)"
proof -
  have a: "\<exists>ds. ds \<noteq> [] \<and> list_all isDigit ds \<and> ''7%'' = ds @ ''%''"
    by (rule exI [of _ "''7''"]) (simp add: isDigit_def)
  have "normalizeCoordinate (Str ''7%'') 3 = Inr (Str ''7%'')"
    using normalizeCoordinate_spec [of 0 3 "''7%''", THEN conjunct2, THEN conjunct1]
    by (simp only: a if_True)
  moreover have "normalizeCoordinate Null 3 = Inr (Num 3)"
    using normalizeCoordinate_spec [of 0 3 "''7%''"] by blast
  ultimately show ?thesis by blast
qed

lemma round_reflect:
  fixes x :: real
  shows "round (100 - x) = (if frac x = 1 / 2 then 100 - \<lfloor>x + 1 / 2\<rfloor> + 1 else 100 - \<lfloor>x + 1 / 2\<rfloor>)"
proof -
  define n where "n = \<lfloor>x\<rfloor>"
  define f where "f = frac x"
  have x: "x = of_int n + f"
    by (simp add: n_def f_def frac_def)
  have f0: "0 \<le> f" and f1: "f < 1"
    by (simp_all add: f_def frac_lt_1)
  consider "f < 1 / 2" | "f = 1 / 2" | "f > 1 / 2" by linarith
  then show ?thesis
  proof cases
    case 1
    have a: "\<lfloor>x + 1 / 2\<rfloor> = n" using x f0 1 by (intro floor_unique) auto
    have b: "\<lfloor>100 - x + 1 / 2\<rfloor> = 100 - n" using x f0 1 by (intro floor_unique) auto
    show ?thesis using a b 1 by (simp add: round_def f_def)
  next
    case 2
    have a: "\<lfloor>x + 1 / 2\<rfloor> = n + 1" using x 2 by (intro floor_unique) auto
    have b: "\<lfloor>100 - x + 1 / 2\<rfloor> = 100 - n" using x 2 by (intro floor_unique) auto
    show ?thesis using a b 2 by (simp add: round_def f_def)
  next
    case 3
    have a: "\<lfloor>x + 1 / 2\<rfloor> = n + 1" using x f1 3 by (intro floor_unique) auto
    have b: "\<lfloor>100 - x + 1 / 2\<rfloor> = 100 - n - 1" using x f1 3 by (intro floor_unique) auto
    show ?thesis using a b 3 by (simp add: round_def f_def)
  qed
qed

lemma toUpperCase_char_upper:
  "\<not> (97 \<le> (of_char (toUpperCase_char c) :: nat) \<and> (of_char (toUpperCase_char c) :: nat) \<le> 122)"
  by (auto simp: toUpperCase_char_def Let_def)

lemma toUpperCase_no_lower:
  "list_all (\<lambda>ch. \<not> (97 \<le> (of_char ch :: nat) \<and> (of_char ch :: nat) \<le> 122)) (toUpperCase s)"
  using toUpperCase_char_upper by (simp add: toUpperCase_def list_all_iff)

section \<open>The rounding of a product of doubles\<close>

lemma excess_bits_lower:
  "0 < excess_bits n \<Longrightarrow> 2 ^ (52 + excess_bits n) \<le> n"
proof (induction n rule: excess_bits.induct)
  case (1 n)
  show ?case
  proof (cases "n < 2 ^ 53")
    case True
    with "1.prems" show ?thesis by (simp add: excess_bits.simps)
  next
    case False
    then have eq: "excess_bits n = Suc (excess_bits (n div 2))"
      by (subst excess_bits.simps) simp
    show ?thesis
    proof (cases "excess_bits (n div 2) = 0")
      case True
      with eq False show ?thesis by simp
    next
      case False': False
      then have "2 ^ (52 + excess_bits (n div 2)) \<le> n div 2"
        using "1.IH" [OF False] by simp
      then have "2 * 2 ^ (52 + excess_bits (n div 2)) \<le> n" by linarith
      then have "2 ^ Suc (52 + excess_bits (n div 2)) \<le> n" by (simp only: power_Suc)
      then show ?thesis by (simp only: eq add_Suc_right)
    qed
  qed
qed

lemma round_int:
  fixes m J P half :: int
  assumes P: "0 < P" and h: "0 < half"
  defines "q \<equiv> m div P" and "r \<equiv> m mod P"
  defines "q' \<equiv> (if half < r \<or> (r = half \<and> odd q) then q + 1 else q)"
  shows "m \<le> J * P \<Longrightarrow> q' \<le> J" and "J * P \<le> m \<Longrightarrow> J \<le> q'"
proof -
  have m: "m = q * P + r" by (simp add: q_def r_def)
  have r0: "0 \<le> r" and rP: "r < P" using P by (simp_all add: r_def)
  have qq: "q \<le> q'" "q' \<le> q + 1" by (simp_all add: q'_def)
  have up: "q' = q + 1 \<Longrightarrow> 0 < r" using h by (auto simp: q'_def split: if_splits)
  {
    assume le: "m \<le> J * P"
    show "q' \<le> J"
    proof (rule ccontr)
      assume "\<not> q' \<le> J"
      then have "J < q'" by simp
      then consider "J < q" | "q' = q + 1" "J = q" using qq by linarith
      then show False
      proof cases
        case 1
        then have "(J + 1) * P \<le> q * P" using P by (intro mult_right_mono) auto
        with le m r0 P show False by (simp add: algebra_simps)
      next
        case 2
        with up have "0 < r" by simp
        with le m 2 show False by simp
      qed
    qed
  }
  {
    assume ge: "J * P \<le> m"
    show "J \<le> q'"
    proof (rule ccontr)
      assume "\<not> J \<le> q'"
      then have "q + 1 \<le> J" using qq by linarith
      then have "(q + 1) * P \<le> J * P" using P by (intro mult_right_mono) auto
      with ge m rP show False by (simp add: algebra_simps)
    qed
  }
qed

lemma round_to_double_half_integers:
  fixes m e j :: int
  assumes m0: "0 \<le> m" and le: "of_int m * 2 powi e \<le> (100::real)"
  shows "of_int m * 2 powi e \<le> (of_int j / 2 :: real)
           \<Longrightarrow> double_val (round_to_double m e) \<le> of_int j / 2"
    and "(of_int j / 2 :: real) \<le> of_int m * 2 powi e
           \<Longrightarrow> of_int j / 2 \<le> double_val (round_to_double m e)"
proof -
  define k where "k = excess_bits (nat \<bar>m\<bar>)"
  have both: "(of_int m * 2 powi e \<le> (of_int j / 2 :: real)
                \<longrightarrow> double_val (round_to_double m e) \<le> of_int j / 2)
            \<and> ((of_int j / 2 :: real) \<le> of_int m * 2 powi e
                \<longrightarrow> of_int j / 2 \<le> double_val (round_to_double m e))"
  proof (cases "k = 0")
    case True
    then show ?thesis
      by (simp add: round_to_double_def k_def [symmetric] double_val_def)
  next
    case False
    then have kpos: "0 < k" by simp
    have "2 ^ (52 + k) \<le> nat \<bar>m\<bar>"
      using excess_bits_lower [of "nat \<bar>m\<bar>"] kpos by (simp add: k_def)
    then have "int (2 ^ (52 + k)) \<le> int (nat \<bar>m\<bar>)"
      by (simp only: of_nat_le_iff)
    moreover have "int (nat \<bar>m\<bar>) = m"
      using m0 by simp
    moreover have "int (2 ^ (52 + k)) = 2 ^ (52 + k)"
      by simp
    ultimately have big: "(2::int) ^ (52 + k) \<le> m"
      by simp
    have "(0::int) < 2 ^ (52 + k)"
      by simp
    with big have mpos: "0 < m"
      by linarith
    have "(2::real) powi (int (52 + k) + e) = 2 powi int (52 + k) * 2 powi e"
      by (rule power_int_add) simp
    also have "\<dots> = 2 ^ (52 + k) * 2 powi e"
      by (simp only: power_int_of_nat)
    also have "\<dots> \<le> of_int m * 2 powi e"
    proof (rule mult_right_mono)
      have "(of_int ((2::int) ^ (52 + k)) :: real) \<le> of_int m"
        using big by (simp only: of_int_le_iff)
      then show "(2::real) ^ (52 + k) \<le> of_int m" by simp
    qed simp
    finally have "(2::real) powi (int (52 + k) + e) \<le> 100"
      using le by simp
    have small: "int (52 + k) + e < 7"
    proof (rule ccontr)
      assume "\<not> int (52 + k) + e < 7"
      then have "(2::real) powi 7 \<le> 2 powi (int (52 + k) + e)"
        by (intro power_int_increasing) auto
      with \<open>(2::real) powi (int (52 + k) + e) \<le> 100\<close> show False by simp
    qed
    define t where "t = nat (- 1 - (e + int k))"
    have ek: "e + int k = - 1 - int t"
      using small by (simp add: t_def)
    define g :: real where "g = 2 powi (e + int k)"
    have gpos: "0 < g" by (simp add: g_def)
    have gt: "2 ^ t * g = 1 / 2"
      by (simp add: g_def ek power_int_diff power_int_minus field_simps)
    define J where "J = j * 2 ^ t"
    have Jg: "of_int J * g = of_int j / 2"
      using gt by (simp add: J_def algebra_simps)
    have xg: "of_int m * 2 powi e * 2 ^ k = of_int m * g"
      by (simp add: g_def power_int_add)
    define q where "q = m div 2 ^ k"
    define r where "r = m mod 2 ^ k"
    define q' where "q' = (if 2 ^ (k - 1) < r \<or> (r = 2 ^ (k - 1) \<and> odd q) then q + 1 else q)"
    have am: "\<bar>m\<bar> = m"
      using mpos by simp
    have ke: "excess_bits (nat m) = k"
      by (simp add: k_def am)
    have rd: "round_to_double m e = \<lparr>mantissa = q', exponent = e + int k\<rparr>"
      unfolding round_to_double_def am ke
      using kpos mpos by (simp add: Let_def q'_def q_def r_def)
    have y: "double_val (round_to_double m e) = of_int q' * g"
      by (simp add: rd double_val_def g_def)
    have ri1: "m \<le> J * 2 ^ k \<Longrightarrow> q' \<le> J"
      unfolding q'_def q_def r_def
      by (rule round_int(1) [where P = "2 ^ k" and half = "2 ^ (k - 1)"]) simp_all
    have ri2: "J * 2 ^ k \<le> m \<Longrightarrow> J \<le> q'"
      unfolding q'_def q_def r_def
      by (rule round_int(2) [where P = "2 ^ k" and half = "2 ^ (k - 1)"]) simp_all
    define x :: real where "x = of_int m * 2 powi e"
    define c :: real where "c = 2 ^ k"
    define h :: real where "h = of_int j / 2"
    have cpos: "0 < c" by (simp add: c_def)
    have xc: "x * c = of_int m * g"
      using xg by (simp add: x_def c_def)
    have hc: "h * c = of_int (J * 2 ^ k) * g"
      using Jg by (simp add: h_def c_def mult_ac)
    have cmp1: "x \<le> h \<longleftrightarrow> m \<le> J * 2 ^ k"
    proof -
      have "x \<le> h \<longleftrightarrow> x * c \<le> h * c"
        using cpos by (simp only: mult_le_cancel_right_pos)
      also have "\<dots> \<longleftrightarrow> of_int m * g \<le> of_int (J * 2 ^ k) * g"
        by (simp only: xc hc)
      also have "\<dots> \<longleftrightarrow> (of_int m :: real) \<le> of_int (J * 2 ^ k)"
        using gpos by (simp only: mult_le_cancel_right_pos)
      finally show ?thesis by (simp only: of_int_le_iff)
    qed
    have cmp2: "h \<le> x \<longleftrightarrow> J * 2 ^ k \<le> m"
    proof -
      have "h \<le> x \<longleftrightarrow> h * c \<le> x * c"
        using cpos by (simp only: mult_le_cancel_right_pos)
      also have "\<dots> \<longleftrightarrow> of_int (J * 2 ^ k) * g \<le> of_int m * g"
        by (simp only: xc hc)
      also have "\<dots> \<longleftrightarrow> (of_int (J * 2 ^ k) :: real) \<le> of_int m"
        using gpos by (simp only: mult_le_cancel_right_pos)
      finally show ?thesis by (simp only: of_int_le_iff)
    qed
    have yh: "double_val (round_to_double m e) = of_int q' * g" "h = of_int J * g"
      using y Jg by (simp_all add: h_def)
    have out1: "q' \<le> J \<Longrightarrow> double_val (round_to_double m e) \<le> h"
      using gpos by (simp only: yh mult_le_cancel_right_pos of_int_le_iff)
    have out2: "J \<le> q' \<Longrightarrow> h \<le> double_val (round_to_double m e)"
      using gpos by (simp only: yh mult_le_cancel_right_pos of_int_le_iff)
    show ?thesis
      using cmp1 cmp2 ri1 ri2 out1 out2 unfolding x_def h_def by blast
  qed
  from both show "of_int m * 2 powi e \<le> (of_int j / 2 :: real)
           \<Longrightarrow> double_val (round_to_double m e) \<le> of_int j / 2"
    by blast
  from both show "(of_int j / 2 :: real) \<le> of_int m * 2 powi e
           \<Longrightarrow> of_int j / 2 \<le> double_val (round_to_double m e)"
    by blast
qed

lemma Math_round_rounded:
  fixes m e :: int
  defines "x \<equiv> (of_int m * 2 powi e :: real)"
  defines "y \<equiv> double_val (round_to_double m e)"
  assumes m0: "0 \<le> m" and le: "x \<le> 100"
  shows "0 \<le> Math_round y" and "Math_round y \<le> 100"
    and "Math_round y = Math_round x \<or> Math_round y = Math_round x + 1"
    and "frac x = 1 / 2 \<Longrightarrow> y = x"
proof -
  have le': "of_int m * 2 powi e \<le> (100::real)"
    using le by (simp add: x_def)
  have lower: "of_int j / 2 \<le> x \<Longrightarrow> of_int j / 2 \<le> y" for j :: int
    unfolding x_def y_def by (rule round_to_double_half_integers(2) [OF m0 le'])
  have upper: "x \<le> of_int j / 2 \<Longrightarrow> y \<le> of_int j / 2" for j :: int
    unfolding x_def y_def by (rule round_to_double_half_integers(1) [OF m0 le'])
  have x0: "0 \<le> x"
    using m0 by (simp add: x_def)
  have y0: "0 \<le> y"
    using lower [of 0] x0 by simp
  have y100: "y \<le> 100"
    using upper [of 200] le by simp
  show "0 \<le> Math_round y"
    using y0 by (simp add: Math_round_def zero_le_floor)
  show "Math_round y \<le> 100"
    using y100 by (simp add: Math_round_def floor_le_iff)
  define n where "n = \<lfloor>x + 1 / 2\<rfloor>"
  have n1: "of_int n \<le> x + 1 / 2" and n2: "x + 1 / 2 < of_int n + 1"
    unfolding n_def by (rule of_int_floor_le, rule real_of_int_floor_add_one_gt)
  have "of_int (2 * n - 1) / 2 \<le> x"
    using n1 by simp
  then have "of_int (2 * n - 1) / 2 \<le> y"
    by (rule lower)
  then have ge: "n \<le> \<lfloor>y + 1 / 2\<rfloor>"
    by (simp add: le_floor_iff)
  have "x \<le> of_int (2 * n + 1) / 2"
    using n2 by simp
  then have "y \<le> of_int (2 * n + 1) / 2"
    by (rule upper)
  then have "y + 1 / 2 < of_int (n + 2)"
    by simp
  then have "\<lfloor>y + 1 / 2\<rfloor> < n + 2"
    by (simp only: floor_less_iff)
  then have lt: "\<lfloor>y + 1 / 2\<rfloor> \<le> n + 1"
    by linarith
  from ge lt show "Math_round y = Math_round x \<or> Math_round y = Math_round x + 1"
    unfolding Math_round_def n_def [symmetric] by linarith
  show "y = x" if half: "frac x = 1 / 2"
  proof -
    have "x = of_int \<lfloor>x\<rfloor> + 1 / 2"
      using half by (simp add: frac_def)
    then have xe: "x = of_int (2 * \<lfloor>x\<rfloor> + 1) / 2"
      by simp
    have "y \<le> of_int (2 * \<lfloor>x\<rfloor> + 1) / 2"
      by (rule upper) (use xe in simp)
    moreover have "of_int (2 * \<lfloor>x\<rfloor> + 1) / 2 \<le> y"
      by (rule lower) (use xe in simp)
    ultimately show ?thesis
      using xe by linarith
  qed
qed

lemma alpha_transparency:
  fixes a :: double
  assumes a0: "0 \<le> double_val a" and a1: "double_val a \<le> 1"
  defines "n \<equiv> 100 - Math_round (double_val (double_times a hundred))"
  shows "0 \<le> n" and "n \<le> 100"
    and "n = spec_alpha (double_val a) \<or> n = spec_alpha (double_val a) - 1"
proof -
  let ?m = "mantissa a * 100"
  let ?e = "exponent a + 0"
  let ?x = "of_int ?m * 2 powi ?e :: real"
  have xv: "?x = double_val a * 100"
    by (simp add: double_val_def)
  have "0 \<le> mantissa a"
  proof (rule ccontr)
    assume "\<not> 0 \<le> mantissa a"
    then have "of_int (mantissa a) < (0::real)"
      by simp
    then have "of_int (mantissa a) * 2 powi exponent a < (0::real)"
      by (rule mult_neg_pos) simp
    with a0 show False
      by (simp add: double_val_def)
  qed
  then have m0: "0 \<le> ?m"
    by simp
  have le: "?x \<le> 100"
    using a1 by (simp only: xv)
  have dt: "double_times a hundred = round_to_double ?m ?e"
    by (simp add: double_times_def hundred_def)
  note r = Math_round_rounded [OF m0 le]
  show "0 \<le> n" "n \<le> 100"
    using r(1,2) by (simp_all add: n_def dt)
  have sp: "spec_alpha (double_val a) = round (100 - ?x)"
    by (simp only: xv) (simp add: spec_alpha_def algebra_simps)
  show "n = spec_alpha (double_val a) \<or> n = spec_alpha (double_val a) - 1"
  proof (cases "frac ?x = 1 / 2")
    case True
    from r(4) [OF True] have "Math_round (double_val (round_to_double ?m ?e)) = Math_round ?x"
      by simp
    then show ?thesis
      using True by (simp only: n_def dt sp round_reflect Math_round_def) simp
  next
    case False
    from r(3) show ?thesis
      using False by (simp only: n_def dt sp round_reflect Math_round_def) auto
  qed
qed

lemma quarter_times_hundred:
  assumes "double_val a = 1 / 4"
  shows "double_val (double_times a hundred) = 25"
proof -
  have x: "(of_int (mantissa a * 100) * 2 powi (exponent a + 0) :: real) = of_int 50 / 2"
    using assms by (simp add: double_val_def)
  have m0: "0 \<le> mantissa a * 100"
  proof (rule ccontr)
    assume "\<not> 0 \<le> mantissa a * 100"
    then have "of_int (mantissa a) < (0::real)"
      by simp
    then have "of_int (mantissa a) * 2 powi exponent a < (0::real)"
      by (rule mult_neg_pos) simp
    with assms show False
      by (simp add: double_val_def)
  qed
  have le: "(of_int (mantissa a * 100) * 2 powi (exponent a + 0) :: real) \<le> 100"
    unfolding x by simp
  have "double_val (round_to_double (mantissa a * 100) (exponent a + 0)) \<le> of_int 50 / 2"
    by (rule round_to_double_half_integers(1) [OF m0 le]) (simp only: x)
  moreover have "of_int 50 / 2 \<le> double_val (round_to_double (mantissa a * 100) (exponent a + 0))"
    by (rule round_to_double_half_integers(2) [OF m0 le]) (simp only: x)
  ultimately show ?thesis
    by (simp add: double_times_def hundred_def)
qed

text \<open>
  C4, as amended: for a color whose parsed alpha \<open>a\<close> is in [0,1], the normalizer returns
  the bare upper-case hex string when \<open>a = 1\<close> (six characters when \<^verbatim>\<open>hex()\<close> has seven),
  and otherwise the solid record whose alpha is \<open>100 - Math.round(a * 100)\<close>, the product
  being the product of doubles. That number is an integer in [0,100], and it is
  \<open>round (100 \<times> (1 - a))\<close> or one less. Alpha 0.25 on black gives the record with color
  000000 and alpha 75.
\<close>

theorem normalizeHexOrComplexColor_alpha:
  assumes c: "Color c = Some clr"
    and a0: "0 \<le> double_val (alpha clr)" and a1: "double_val (alpha clr) \<le> 1"
  shows "(double_val (alpha clr) = 1 \<longrightarrow>
            normalizeHexOrComplexColor Color c = Inr (Str (toUpperCase (substring1 (hex clr)))))
       \<and> (double_val (alpha clr) \<noteq> 1 \<longrightarrow>
            normalizeHexOrComplexColor Color c =
              Inr (ComplexColor (toUpperCase (substring1 (hex clr)))
                     (100 - Math_round (double_val (double_times (alpha clr) hundred)))))
       \<and> 0 \<le> 100 - Math_round (double_val (double_times (alpha clr) hundred))
       \<and> 100 - Math_round (double_val (double_times (alpha clr) hundred)) \<le> 100
       \<and> (100 - Math_round (double_val (double_times (alpha clr) hundred))
             = spec_alpha (double_val (alpha clr))
          \<or> 100 - Math_round (double_val (double_times (alpha clr) hundred))
             = spec_alpha (double_val (alpha clr)) - 1)
       \<and> (length (hex clr) = 7 \<longrightarrow> length (toUpperCase (substring1 (hex clr))) = 6)
       \<and> list_all (\<lambda>ch. \<not> (97 \<le> (of_char ch :: nat) \<and> (of_char ch :: nat) \<le> 122))
            (toUpperCase (substring1 (hex clr)))
       \<and> (hex clr = ''#000000'' \<and> double_val (alpha clr) = 1 / 4 \<longrightarrow>
            normalizeHexOrComplexColor Color c = Inr (ComplexColor ''000000'' 75))"
proof -
  note t = alpha_transparency [OF a0 a1]
  have eqs: "(double_val (alpha clr) = 1 \<longrightarrow>
            normalizeHexOrComplexColor Color c = Inr (Str (toUpperCase (substring1 (hex clr)))))
       \<and> (double_val (alpha clr) \<noteq> 1 \<longrightarrow>
            normalizeHexOrComplexColor Color c =
              Inr (ComplexColor (toUpperCase (substring1 (hex clr)))
                     (100 - Math_round (double_val (double_times (alpha clr) hundred)))))"
    using c by (simp add: normalizeHexOrComplexColor_def)
  have len: "length (hex clr) = 7 \<longrightarrow> length (toUpperCase (substring1 (hex clr))) = 6"
    by (simp add: toUpperCase_def substring1_def)
  have ex: "hex clr = ''#000000'' \<and> double_val (alpha clr) = 1 / 4 \<longrightarrow>
            normalizeHexOrComplexColor Color c = Inr (ComplexColor ''000000'' 75)"
  proof (intro impI, elim conjE)
    assume h: "hex clr = ''#000000''" and a: "double_val (alpha clr) = 1 / 4"
    show "normalizeHexOrComplexColor Color c = Inr (ComplexColor ''000000'' 75)"
      using c
      by (simp add: normalizeHexOrComplexColor_def h a quarter_times_hundred [OF a]
            Math_round_def toUpperCase_def toUpperCase_char_def substring1_def)
  qed
  from eqs t len toUpperCase_no_lower [of "substring1 (hex clr)"] ex
  show ?thesis by blast
qed

lemmas eval_double =
  double_val_def double_times_def round_to_double_def excess_bits.simps hundred_def
  Math_round_def Let_def

theorem normalizeHexOrComplexColor_alpha_witness:
  "exampleColor (Str ''rgba(0,0,0,0.25)'')
     = Some \<lparr>hex = ''#000000'', alpha = \<lparr>mantissa = 1, exponent = - 2\<rparr>\<rparr>
   \<and> normalizeHexOrComplexColor exampleColor (Str ''rgba(0,0,0,0.25)'')
       = Inr (ComplexColor ''000000'' 75)
   \<and> spec_alpha (1 / 4) = 75
   \<and> normalizeHexOrComplexColor exampleColor (Str ''rgba(0,0,0,0.995)'')
       = Inr (ComplexColor ''000000'' 0)
   \<and> spec_alpha (double_val \<lparr>mantissa = 8962163258467287, exponent = - 53\<rparr>) = 1"
proof -
  have h: "exampleColor (Str ''rgba(0,0,0,0.25)'')
             = Some \<lparr>hex = ''#000000'', alpha = \<lparr>mantissa = 1, exponent = - 2\<rparr>\<rparr>"
    by (simp add: exampleColor_def)
  have v: "double_val \<lparr>mantissa = 1, exponent = - 2\<rparr> = 1 / 4"
    by (simp add: double_val_def)
  have s: "spec_alpha (1 / 4) = 75"
    by (simp add: spec_alpha_def round_def)
  have q: "normalizeHexOrComplexColor exampleColor (Str ''rgba(0,0,0,0.25)'')
             = Inr (ComplexColor ''000000'' 75)"
    using normalizeHexOrComplexColor_alpha
            [of exampleColor "Str ''rgba(0,0,0,0.25)''"
                "\<lparr>hex = ''#000000'', alpha = \<lparr>mantissa = 1, exponent = - 2\<rparr>\<rparr>"]
      h v
    by (simp add: eval_double toUpperCase_def toUpperCase_char_def substring1_def)
  have n: "normalizeHexOrComplexColor exampleColor (Str ''rgba(0,0,0,0.995)'')
             = Inr (ComplexColor ''000000'' 0)"
    by (simp add: normalizeHexOrComplexColor_def exampleColor_def eval_double toUpperCase_def
          toUpperCase_char_def substring1_def)
  have p: "spec_alpha (double_val \<lparr>mantissa = 8962163258467287, exponent = - 53\<rparr>) = 1"
    by (simp add: spec_alpha_def round_def double_val_def)
  from h q s n p show ?thesis by blast
qed

text \<open>
  The claim as stated fails: for alpha 1/8 every step is exact, the code gives
  transparency 87, and \<open>round (100 \<times> (1 - 1/8)) = round 87.5 = 88\<close>.
\<close>

theorem normalizeHexOrComplexColor_alpha_counterexample:
  "normalizeHexOrComplexColor exampleColor (Str ''rgba(0,0,0,0.125)'')
     = Inr (ComplexColor ''000000'' 87)
   \<and> spec_alpha (double_val \<lparr>mantissa = 1, exponent = - 3\<rparr>) = 88
   \<and> normalizeHexOrComplexColor exampleColor (Str ''rgba(0,0,0,0.125)'')
       \<noteq> Inr (ComplexColor ''000000''
               (spec_alpha (double_val \<lparr>mantissa = 1, exponent = - 3\<rparr>)))"
  by (simp add: normalizeHexOrComplexColor_def exampleColor_def eval_double toUpperCase_def
        toUpperCase_char_def substring1_def spec_alpha_def round_def ComplexColor_def)

section \<open>Visual nodes: the equations of each kind\<close>

lemma normalizeSlideObject_no_style:
  "props_style node = None \<Longrightarrow>
     normalizeSlideObject Color toString node =
       Inl (TypeError (''A '' @ node_type node @ '' object is missing style attribute''))"
  by (simp add: normalizeSlideObject.simps)

lemma normalizeSlideObject_Line:
  "normalizeSlideObject Color toString (LineNode (Some style) x1 y1 x2 y2) =
     (case colorOrNull Color (get style ''color'') of
        Inl err \<Rightarrow> Inl err
      | Inr color \<Rightarrow>
          Inr (Some (InternalLine x1 y1 x2 y2
            [''color'' \<mapsto> color, ''width'' \<mapsto> nullish_coalesce (get style ''width'') Null])))"
  by (simp add: normalizeSlideObject.simps)

lemma normalizeSlideObject_Table:
  "normalizeSlideObject Color toString (TableNode (Some style) rows) =
     (case normalizeCoordinates style of
        Inl err \<Rightarrow> Inl err
      | Inr normalizedCoordinates \<Rightarrow>
          (case array_map (array_map (\<lambda>cell.
                   case cell of
                     Inl s \<Rightarrow> Inr (Some (stringCell s))
                   | Inr cellNode \<Rightarrow> normalizeSlideObject Color toString cellNode)) rows of
             Inl err \<Rightarrow> Inl err
           | Inr normalized \<Rightarrow>
               (case colorOrNull Color (get style ''borderColor'') of
                  Inl err \<Rightarrow> Inl err
                | Inr borderColor \<Rightarrow>
                    Inr (Some (InternalTable normalized
                      (normalizedCoordinates
                         (''borderColor'' \<mapsto> borderColor,
                          ''borderWidth'' \<mapsto> nullish_coalesce (get style ''borderWidth'') Null,
                          ''margin'' \<mapsto> nullish_coalesce (get style ''margin'') Null)))))))"
  by (cases "normalizeCoordinates style") (simp_all add: normalizeSlideObject.simps)

text \<open>
  C3, as amended: a visual node of any kind, a line included, that has no \<^verbatim>\<open>style\<close>
  makes the normalization throw the \<^verbatim>\<open>TypeError\<close> that names the node's type. A line
  that has a style is exempt from the box coordinates only: its \<^verbatim>\<open>x, y, w, h\<close> are never
  read, and only \<^verbatim>\<open>color\<close> and \<^verbatim>\<open>width\<close> are canonicalized.
\<close>

theorem normalizeSlideObject_missing_style:
  "(props_style node = None \<longrightarrow>
      normalizeSlideObject Color toString node =
        Inl (TypeError (''A '' @ node_type node @ '' object is missing style attribute'')))
   \<and> normalizeSlideObject Color toString (LineNode (Some style) x1 y1 x2 y2) =
       (case colorOrNull Color (get style ''color'') of
          Inl err \<Rightarrow> Inl err
        | Inr color \<Rightarrow>
            Inr (Some (InternalLine x1 y1 x2 y2
              [''color'' \<mapsto> color, ''width'' \<mapsto> nullish_coalesce (get style ''width'') Null])))"
  using normalizeSlideObject_no_style [of node Color toString]
    normalizeSlideObject_Line [of Color toString style x1 y1 x2 y2]
  by simp

theorem normalizeSlideObject_missing_style_witness:
  "normalizeSlideObject exampleColor exampleToString (TextNode None None)
     = Inl (TypeError ''A text object is missing style attribute'')
   \<and> normalizeSlideObject exampleColor exampleToString
         (ShapeNode None (Str ''rect'') None)
     = Inl (TypeError ''A shape object is missing style attribute'')"
  using normalizeSlideObject_missing_style [of "TextNode None None" exampleColor exampleToString]
    normalizeSlideObject_missing_style
      [of "ShapeNode None (Str ''rect'') None" exampleColor exampleToString]
  by simp

text \<open>
  The claim as stated exempts the line; the code does not: the test for the style comes
  before the test for the line.
\<close>

theorem normalizeSlideObject_missing_style_counterexample:
  "normalizeSlideObject exampleColor exampleToString
     (LineNode None (Num 0) (Num 0) (Num 1) (Num 1))
     = Inl (TypeError ''A line object is missing style attribute'')"
  by (simp add: normalizeSlideObject.simps)

section \<open>Tables and slide objects\<close>

lemma array_map_Inr_iff:
  "array_map f xs = Inr ys \<longleftrightarrow> list_all2 (\<lambda>x y. f x = Inr y) xs ys"
proof
  show "array_map f xs = Inr ys \<Longrightarrow> list_all2 (\<lambda>x y. f x = Inr y) xs ys"
    by (induction xs arbitrary: ys) (auto split: sum.splits)
  show "list_all2 (\<lambda>x y. f x = Inr y) xs ys \<Longrightarrow> array_map f xs = Inr ys"
    by (induction rule: list_all2_induct) auto
qed

lemma normalizeSlideObject_not_null:
  "normalizeSlideObject Color toString node \<noteq> Inr None"
  by (cases node; cases "props_style node")
     (simp_all add: normalizeSlideObject.simps split: option.splits sum.splits prod.splits)

lemma table_rows_shape:
  assumes "array_map (array_map g) rows = Inr normalized"
  shows "list_all2 (list_all2 (\<lambda>cell out. g cell = Inr out)) rows normalized"
  using assms by (simp add: array_map_Inr_iff)

text \<open>
  C7: when a table node normalizes, the result is a table whose rows correspond to the
  given rows one to one and in order, each row's cells to the given cells one to one and
  in order. A cell that is a bare string has become the text object with coordinates
  x = y = w = h = 0 and color null that holds exactly one run, with the string as text
  and the empty style; a cell that is a node has become what \<^verbatim>\<open>normalizeSlideObject\<close>
  returns for it.
\<close>

theorem table_cells:
  assumes ok: "normalizeSlideObject Color toString (TableNode (Some style) rows) = Inr (Some obj)"
  shows "\<exists>normalized tableStyle.
           obj = InternalTable normalized tableStyle
         \<and> list_all2 (list_all2 (\<lambda>cell out.
               case cell of
                 Inl s \<Rightarrow>
                   out = Some (InternalText
                     [\<lparr>part_text = s, part_rtlMode = None, part_lang = None, part_link = None,
                       part_bullet = None, part_style = Map.empty, part_breakLine = None\<rparr>]
                     [''x'' \<mapsto> Num 0, ''y'' \<mapsto> Num 0, ''w'' \<mapsto> Num 0, ''h'' \<mapsto> Num 0,
                      ''color'' \<mapsto> Null]
                     None None)
                   \<and> (\<forall>cellObj. out = Some cellObj \<longrightarrow> kind cellObj = ''text'')
               | Inr cellNode \<Rightarrow> normalizeSlideObject Color toString cellNode = Inr out))
             rows normalized"
proof -
  let ?g = "\<lambda>cell. case cell of
                     Inl s \<Rightarrow> Inr (Some (stringCell s))
                   | Inr cellNode \<Rightarrow> normalizeSlideObject Color toString cellNode"
  from ok obtain normalized tableStyle where
    obj: "obj = InternalTable normalized tableStyle" and
    am: "array_map (array_map ?g) rows = Inr normalized"
    by (auto simp: normalizeSlideObject_Table split: sum.splits)
  have "list_all2 (list_all2 (\<lambda>cell out. ?g cell = Inr out)) rows normalized"
    using am by (rule table_rows_shape)
  then have "list_all2 (list_all2 (\<lambda>cell out.
               case cell of
                 Inl s \<Rightarrow>
                   out = Some (InternalText
                     [\<lparr>part_text = s, part_rtlMode = None, part_lang = None, part_link = None,
                       part_bullet = None, part_style = Map.empty, part_breakLine = None\<rparr>]
                     [''x'' \<mapsto> Num 0, ''y'' \<mapsto> Num 0, ''w'' \<mapsto> Num 0, ''h'' \<mapsto> Num 0,
                      ''color'' \<mapsto> Null]
                     None None)
                   \<and> (\<forall>cellObj. out = Some cellObj \<longrightarrow> kind cellObj = ''text'')
               | Inr cellNode \<Rightarrow> normalizeSlideObject Color toString cellNode = Inr out))
             rows normalized"
    by (rule list_all2_mono, elim list_all2_mono)
       (auto simp: stringCell_def plainTextPart_def split: sum.splits)
  with obj show ?thesis by blast
qed

theorem table_cells_witness:
  "\<exists>tableStyle.
     normalizeSlideObject exampleColor exampleToString
       (TableNode (Some Map.empty) [[Inl ''a'', Inl ''b''], [Inl ''c'']])
     = Inr (Some (InternalTable
         [[Some (stringCell ''a''), Some (stringCell ''b'')], [Some (stringCell ''c'')]]
         tableStyle))"
proof -
  obtain obj where e: "normalizeSlideObject exampleColor exampleToString
       (TableNode (Some Map.empty) [[Inl ''a'', Inl ''b''], [Inl ''c'']]) = Inr (Some obj)"
    by (simp add: normalizeSlideObject_Table normalizeCoordinates_def normalizeCoordinate_def
          get_def colorOrNull_def)
  from table_cells [OF e] e show ?thesis
    by (auto simp: list_all2_Cons1 stringCell_def plainTextPart_def)
qed

lemma normalizeChildObjects_Inr:
  assumes "normalizeChildObjects Color toString children = Inr objs"
  shows "list_all2 (\<lambda>c obj. \<exists>node. c = FElement node
            \<and> normalizeSlideObject Color toString node = Inr (Some obj))
           (flattenChildren children) objs"
proof -
  let ?g = "\<lambda>c. case c of
               FElement node \<Rightarrow> normalizeSlideObject Color toString node
             | _ \<Rightarrow> Inl (TypeError ''Cannot read properties of undefined'')"
  from assms obtain os where am: "array_map ?g (flattenChildren children) = Inr os"
    and objs: "objs = map the (filter isPresent os)"
    by (auto simp: normalizeChildObjects_def split: sum.splits)
  have l: "list_all2 (\<lambda>c out. ?g c = Inr out) (flattenChildren children) os"
    using am by (simp add: array_map_Inr_iff)
  have "list_all2 (\<lambda>c out. \<exists>node obj. c = FElement node \<and> out = Some obj
            \<and> normalizeSlideObject Color toString node = Inr (Some obj))
          (flattenChildren children) os"
    using l
  proof (rule list_all2_mono)
    fix c out assume "?g c = Inr out"
    then show "\<exists>node obj. c = FElement node \<and> out = Some obj
            \<and> normalizeSlideObject Color toString node = Inr (Some obj)"
      using normalizeSlideObject_not_null [of Color toString]
      by (cases c; cases out) auto
  qed
  then have "list_all2 (\<lambda>c obj. \<exists>node. c = FElement node
            \<and> normalizeSlideObject Color toString node = Inr (Some obj))
           (flattenChildren children) (map the (filter isPresent os))"
    by (induction rule: list_all2_induct) (auto simp: isPresent_def)
  with objs show ?thesis by simp
qed

text \<open>
  C10: \<^verbatim>\<open>normalizeSlideObject\<close> never returns \<^verbatim>\<open>null\<close>: a node of unknown kind makes it
  throw, and every other path returns an object or throws. So when the objects of a
  slide or of a master slide are computed, they correspond one to one and in order to
  the flattened children, each being the object its child normalizes to: the filter
  \<^verbatim>\<open>isPresent\<close> removes nothing.
\<close>

theorem normalizeSlideObject_never_null:
  "normalizeSlideObject Color toString node \<noteq> Inr None
   \<and> (\<exists>err. normalizeSlideObject Color toString (UnknownNode tag unknownStyle) = Inl err)
   \<and> (\<forall>objs. normalizeChildObjects Color toString children = Inr objs \<longrightarrow>
         length objs = length (flattenChildren children)
         \<and> list_all2 (\<lambda>c obj. \<exists>childNode. c = FElement childNode
                \<and> normalizeSlideObject Color toString childNode = Inr (Some obj))
              (flattenChildren children) objs)
   \<and> (\<forall>slide. normalizeSlide Color toString props = Inr slide
         \<and> truthy_child (slide_children props) \<longrightarrow>
         normalizeChildObjects Color toString (slide_children props) = Inr (objects slide)
         \<and> length (objects slide) = length (flattenChildren (slide_children props)))
   \<and> (\<forall>master. normalizeMasterSlide Color toString masterProps = Inr master
         \<and> truthy_child (master_children masterProps) \<longrightarrow>
         normalizeChildObjects Color toString (master_children masterProps) = Inr (objects master)
         \<and> length (objects master) = length (flattenChildren (master_children masterProps)))"
proof -
  have unknown: "\<exists>err. normalizeSlideObject Color toString (UnknownNode tag unknownStyle) = Inl err"
    by (cases unknownStyle; cases "normalizeCoordinates (the unknownStyle)")
       (simp_all add: normalizeSlideObject.simps)
  have len: "length objs = length (flattenChildren c)"
    if "normalizeChildObjects Color toString c = Inr objs" for c objs
    using normalizeChildObjects_Inr [OF that] by (simp add: list_all2_lengthD)
  have slide: "normalizeChildObjects Color toString (slide_children props) = Inr (objects slide)"
    if "normalizeSlide Color toString props = Inr slide" "truthy_child (slide_children props)"
    for slide
    using that by (auto simp: normalizeSlide_def Let_def split: sum.splits)
  have master: "normalizeChildObjects Color toString (master_children masterProps)
                  = Inr (objects master)"
    if "normalizeMasterSlide Color toString masterProps = Inr master"
       "truthy_child (master_children masterProps)"
    for master
    using that by (auto simp: normalizeMasterSlide_def Let_def split: sum.splits)
  show ?thesis
    using normalizeSlideObject_not_null [of Color toString node] unknown
      normalizeChildObjects_Inr [of Color toString children] len slide master
    by (auto simp: list_all2_lengthD)
qed

theorem normalizeSlideObject_never_null_witness:
  "\<exists>slide. normalizeSlide exampleColor exampleToString exampleSlideProps = Inr slide
     \<and> truthy_child (slide_children exampleSlideProps)
     \<and> length (flattenChildren (slide_children exampleSlideProps)) = 2
     \<and> length (objects slide) = 2"
proof -
  obtain slide where s: "normalizeSlide exampleColor exampleToString exampleSlideProps = Inr slide"
    by (simp add: normalizeSlide_def exampleSlideProps_def normalizeBackgroundColor_def
          styleOrEmpty_def get_def normalizeChildObjects_def normalizeSlideObject.simps
          colorOrNull_def normalizeCoordinates_def normalizeCoordinate_def)
  have t: "truthy_child (slide_children exampleSlideProps)"
    by (simp add: exampleSlideProps_def)
  have f: "length (flattenChildren (slide_children exampleSlideProps)) = 2"
    by (simp add: exampleSlideProps_def)
  from normalizeSlideObject_never_null
         [of exampleColor exampleToString _ _ _ _ exampleSlideProps] s t f
  show ?thesis by auto
qed

section \<open>Text runs: the equations of each kind of child\<close>

lemma reduce_concat:
  "reduce (\<lambda>prev cur. case f cur of Inl err \<Rightarrow> Inl err | Inr parts \<Rightarrow> Inr (prev @ parts)) xs acc
     = (case concat_results (map f xs) of Inl err \<Rightarrow> Inl err | Inr ps \<Rightarrow> Inr (acc @ ps))"
  by (induction xs arbitrary: acc) (auto split: sum.splits)

lemma textPartsReducer_append:
  "textPartsReducer Color toString f acc el
     = (case textPartsReducer Color toString f [] el of
          Inl err \<Rightarrow> Inl err
        | Inr ps \<Rightarrow> Inr (acc @ ps))"
  by (simp add: textPartsReducer_def Let_def
        split: flat_child.splits text_element.splits sum.splits)

lemma reduce_textPartsReducer:
  "reduce (textPartsReducer Color toString f) els acc
     = (case concat_results (map (textPartsReducer Color toString f []) els) of
          Inl err \<Rightarrow> Inl err
        | Inr ps \<Rightarrow> Inr (acc @ ps))"
proof (induction els arbitrary: acc)
  case Nil
  show ?case by simp
next
  case (Cons el els)
  show ?case
    by (subst reduce.simps, subst textPartsReducer_append)
       (auto simp: Cons.IH split: sum.splits)
qed

lemma normalizeText_Element:
  "normalizeText Color toString (Element e)
     = textPartsReducer Color toString (normalizeText Color toString) [] (FElement e)"
  by (subst normalizeText.simps) (simp split: sum.splits)

lemma normalizeText_String:
  "normalizeText Color toString (StringChild s) = Inr [plainTextPart s]"
  by (subst normalizeText.simps) simp

lemma normalizeText_Number:
  "normalizeText Color toString (NumberChild n) = Inr [plainTextPart (toString n)]"
  by (subst normalizeText.simps) simp

lemma normalizeText_Other:
  "normalizeText Color toString OtherChild
     = Inl (TypeError ''Invalid TextChild found; only strings/numbers/arrays of them are accepted'')"
  by (subst normalizeText.simps) simp

lemma map_reducer_elements:
  "list_all isValidElement cs \<Longrightarrow>
     map (textPartsReducer Color toString (normalizeText Color toString) [])
       (concat (map flattenChildren cs))
     = map (normalizeText Color toString) cs"
proof (induction cs)
  case Nil
  show ?case by simp
next
  case (Cons c cs)
  then obtain e where "c = Element e" by (cases c) auto
  with Cons show ?case by (simp add: normalizeText_Element)
qed

lemma normalizeText_Array:
  "normalizeText Color toString (ArrayChild cs)
     = concat_results (map (normalizeText Color toString) cs)"
proof (cases "list_all isValidElement cs")
  case True
  have "normalizeText Color toString (ArrayChild cs)
        = reduce (textPartsReducer Color toString (normalizeText Color toString))
            (concat (map flattenChildren cs)) []"
    using True by (subst normalizeText.simps) simp
  also have "\<dots> = concat_results (map (normalizeText Color toString) cs)"
    by (simp add: reduce_textPartsReducer map_reducer_elements [OF True] split: sum.splits)
  finally show ?thesis .
next
  case False
  have "normalizeText Color toString (ArrayChild cs)
        = reduce (\<lambda>prev cur. case normalizeText Color toString cur of
                     Inl err \<Rightarrow> Inl err | Inr parts \<Rightarrow> Inr (prev @ parts)) cs []"
    using False by (subst normalizeText.simps) simp
  also have "\<dots> = concat_results (map (normalizeText Color toString) cs)"
    by (simp add: reduce_concat split: sum.splits)
  finally show ?thesis .
qed

lemma normalizeText_Bullet:
  "normalizeText Color toString (Element (TextBullet children style rtlMode lang bulletProps))
     = (case normalizeText Color toString children of
          Inl err \<Rightarrow> Inl err
        | Inr normalizedChildren \<Rightarrow>
            (case normalizeStyleColor Color style of
               Inl err \<Rightarrow> Inl err
             | Inr normalizedParentColor \<Rightarrow>
                 Inr (map (bulletChildPart rtlMode lang (bulletValue bulletProps)
                             ((styleOrEmpty style)(''color'' \<mapsto> normalizedParentColor))
                             (length normalizedChildren))
                        (enumerate 0 normalizedChildren))))"
  by (simp add: normalizeText_Element textPartsReducer_def bulletValue_def Let_def
        split: sum.splits)

lemma normalizeText_Link:
  "normalizeText Color toString (Element (TextLink children style rtlMode lang props))
     = (case normalizeStyleColor Color style of
          Inl err \<Rightarrow> Inl err
        | Inr color \<Rightarrow> Inr [elementTextPart children rtlMode lang (textLink props) style color])"
  by (simp add: normalizeText_Element textPartsReducer_def split: sum.splits)

lemma normalizeText_TextOther:
  "normalizeText Color toString (Element (TextOther children style rtlMode lang))
     = (case normalizeStyleColor Color style of
          Inl err \<Rightarrow> Inl err
        | Inr color \<Rightarrow> Inr [elementTextPart children rtlMode lang Undefined style color])"
  by (simp add: normalizeText_Element textPartsReducer_def split: sum.splits)

lemma concat_results_Inr:
  "concat_results (map Inr xss) = Inr (concat xss)"
  by (induction xss) auto

lemma concat_results_member:
  "concat_results rs = Inr ys \<Longrightarrow> y \<in> set ys \<Longrightarrow> \<exists>zs. Inr zs \<in> set rs \<and> y \<in> set zs"
proof (induction rs arbitrary: ys)
  case Nil
  then show ?case by simp
next
  case (Cons r rs)
  from Cons.prems(1) obtain zs ws where r: "r = Inr zs" and ws: "concat_results rs = Inr ws"
    and ys: "ys = zs @ ws"
    by (auto split: sum.splits)
  from Cons.prems(2) ys consider "y \<in> set zs" | "y \<in> set ws" by auto
  then show ?case
  proof cases
    case 1
    with r show ?thesis by auto
  next
    case 2
    from Cons.IH [OF ws 2] show ?thesis by auto
  qed
qed

lemma no_bullet_key:
  "\<not> containsBullet t \<Longrightarrow> normalizeText Color toString t = Inr kids \<Longrightarrow> k \<in> set kids
     \<Longrightarrow> part_bullet k = None"
proof (induction t arbitrary: kids)
  case (Element e)
  then show ?case
    by (cases e)
       (auto simp: normalizeText_Link normalizeText_TextOther elementTextPart_def
             split: sum.splits)
next
  case (StringChild s)
  then show ?case by (auto simp: normalizeText_String plainTextPart_def)
next
  case (NumberChild n)
  then show ?case by (auto simp: normalizeText_Number plainTextPart_def)
next
  case (ArrayChild cs)
  from ArrayChild.prems(2) have "concat_results (map (normalizeText Color toString) cs) = Inr kids"
    by (simp add: normalizeText_Array)
  from concat_results_member [OF this ArrayChild.prems(3)]
  obtain zs where zs: "Inr zs \<in> set (map (normalizeText Color toString) cs)" "k \<in> set zs"
    by blast
  from zs(1) obtain c where c0: "c \<in> set cs" "normalizeText Color toString c = Inr zs"
    by (metis imageE list.set_map)
  with zs(2) have c: "c \<in> set cs" "normalizeText Color toString c = Inr zs" "k \<in> set zs"
    by simp_all
  moreover have "\<not> containsBullet c"
    using ArrayChild.prems(1) c(1) by (auto simp: list_ex_iff)
  ultimately show ?case
    using ArrayChild.IH by blast
next
  case OtherChild
  then show ?case by (simp add: normalizeText_Other)
qed

lemma bulletChildPart_simps:
  "part_breakLine (bulletChildPart rtlMode lang bullet parentStyle n (i, cp)) = Some (Bool (i + 1 \<ge> n))"
  "part_bullet (bulletChildPart rtlMode lang bullet parentStyle n (i, cp))
     = spread_over (if i = 0 then bullet else Undefined) (part_bullet cp)"
  "part_rtlMode (bulletChildPart rtlMode lang bullet parentStyle n (i, cp))
     = spread_over rtlMode (part_rtlMode cp)"
  "part_lang (bulletChildPart rtlMode lang bullet parentStyle n (i, cp))
     = spread_over lang (part_lang cp)"
  "part_style (bulletChildPart rtlMode lang bullet parentStyle n (i, cp))
     = parentStyle ++ part_style cp"
  "part_text (bulletChildPart rtlMode lang bullet parentStyle n (i, cp)) = part_text cp"
  "part_link (bulletChildPart rtlMode lang bullet parentStyle n (i, cp)) = part_link cp"
  by (simp_all add: bulletChildPart_def)

lemma bullet_runs_nth:
  assumes kids: "normalizeText Color toString children = Inr kids"
    and runs: "normalizeText Color toString
                 (Element (TextBullet children style rtlMode lang bulletProps)) = Inr runs"
  shows "\<exists>parentColor. normalizeStyleColor Color style = Inr parentColor
           \<and> length runs = length kids
           \<and> (\<forall>i<length kids. runs ! i =
                 bulletChildPart rtlMode lang (bulletValue bulletProps)
                   ((styleOrEmpty style)(''color'' \<mapsto> parentColor)) (length kids) (i, kids ! i))"
  using kids runs
  by (auto simp: normalizeText_Bullet nth_enumerate_eq split: sum.splits)

lemmas eval_text =
  normalizeText_Bullet normalizeText_Link normalizeText_TextOther normalizeText_Array
  normalizeText_String normalizeText_Number normalizeStyleColor_def styleOrEmpty_def get_def
  bulletValue_def normalizeHexColor_def exampleColor_def toUpperCase_def toUpperCase_char_def
  substring1_def bulletChildPart_def elementTextPart_def plainTextPart_def textLink_def

lemma concat_results_Inl:
  "Inl err \<in> set rs \<Longrightarrow> \<exists>err'. concat_results rs = Inl err'"
  by (induction rs) (auto split: sum.splits)

text \<open>What the bullet branch does with \<^verbatim>\<open>rtlMode\<close> and \<^verbatim>\<open>lang\<close>, run by run.\<close>

lemma bullet_rtlMode_lang_general:
  assumes kids: "normalizeText Color toString children = Inr kids"
    and runs: "normalizeText Color toString
                 (Element (TextBullet children style rtlMode lang bulletProps)) = Inr runs"
    and i: "i < length kids"
  shows "part_rtlMode (runs ! i) = spread_over rtlMode (part_rtlMode (kids ! i))"
    and "part_lang (runs ! i) = spread_over lang (part_lang (kids ! i))"
  using bullet_runs_nth [OF kids runs] i by (auto simp: bulletChildPart_simps)

section \<open>Claims about text runs\<close>

text \<open>
  C1, as amended: for a bullet whose nested child normalizes to N runs, N at least 1,
  the bullet gives N runs; \<^verbatim>\<open>breakLine\<close> is true on the last and false on every other.
  The marker value is written on the first run and \<^verbatim>\<open>undefined\<close> on every later one,
  but under the nested run's own properties: a run that already has a \<^verbatim>\<open>bullet\<close>
  property keeps it. When the nested child holds no bullet element, no run has one, and
  then exactly the first run carries the marker value.
\<close>

theorem bullet_breakLine_and_marker:
  assumes kids: "normalizeText Color toString children = Inr kids"
    and ne: "kids \<noteq> []"
    and runs: "normalizeText Color toString
                 (Element (TextBullet children style rtlMode lang bulletProps)) = Inr runs"
  shows "length runs = length kids
       \<and> (\<forall>i<length runs. part_breakLine (runs ! i) = Some (Bool (i = length runs - 1)))
       \<and> part_bullet (runs ! 0) = spread_over (bulletValue bulletProps) (part_bullet (kids ! 0))
       \<and> (\<forall>i. 0 < i \<and> i < length runs \<longrightarrow>
             part_bullet (runs ! i) = spread_over Undefined (part_bullet (kids ! i)))
       \<and> (\<not> containsBullet children \<longrightarrow>
             part_bullet (runs ! 0) = Some (bulletValue bulletProps)
             \<and> (\<forall>i. 0 < i \<and> i < length runs \<longrightarrow> part_bullet (runs ! i) = Some Undefined))"
proof -
  from bullet_runs_nth [OF kids runs] obtain parentColor where
    len: "length runs = length kids" and
    nth: "\<And>i. i < length kids \<Longrightarrow> runs ! i =
                 bulletChildPart rtlMode lang (bulletValue bulletProps)
                   ((styleOrEmpty style)(''color'' \<mapsto> parentColor)) (length kids) (i, kids ! i)"
    by blast
  have pos: "0 < length kids" using ne by simp
  have br: "\<forall>i<length runs. part_breakLine (runs ! i) = Some (Bool (i = length runs - 1))"
    using len by (auto simp: nth bulletChildPart_simps)
  have b0: "part_bullet (runs ! 0) = spread_over (bulletValue bulletProps) (part_bullet (kids ! 0))"
    using pos by (simp add: nth bulletChildPart_simps)
  have bi: "\<forall>i. 0 < i \<and> i < length runs \<longrightarrow>
             part_bullet (runs ! i) = spread_over Undefined (part_bullet (kids ! i))"
    using len by (auto simp: nth bulletChildPart_simps)
  have none: "part_bullet (kids ! i) = None" if "\<not> containsBullet children" "i < length kids" for i
    using no_bullet_key [OF that(1) kids, of "kids ! i"] that(2) by simp
  have nb: "\<not> containsBullet children \<longrightarrow>
             part_bullet (runs ! 0) = Some (bulletValue bulletProps)
             \<and> (\<forall>i. 0 < i \<and> i < length runs \<longrightarrow> part_bullet (runs ! i) = Some Undefined)"
    using b0 bi none pos len by auto
  from len br b0 bi nb show ?thesis by blast
qed

theorem bullet_breakLine_and_marker_witness:
  "\<exists>runs. normalizeText exampleColor exampleToString exampleBullet = Inr runs
     \<and> length runs = 2
     \<and> part_bullet (runs ! 0) = Some (Obj [(''indent'', Num 10)])
     \<and> part_bullet (runs ! 1) = Some Undefined
     \<and> part_breakLine (runs ! 0) = Some (Bool False)
     \<and> part_breakLine (runs ! 1) = Some (Bool True)"
proof -
  have kids: "normalizeText exampleColor exampleToString
                (ArrayChild [StringChild ''a'', StringChild ''b''])
              = Inr [plainTextPart ''a'', plainTextPart ''b'']"
    by (simp add: normalizeText_Array normalizeText_String)
  have nb: "\<not> containsBullet (ArrayChild [StringChild ''a'', StringChild ''b''])"
    by simp
  obtain runs where runs: "normalizeText exampleColor exampleToString
       (Element (TextBullet (ArrayChild [StringChild ''a'', StringChild ''b''])
          None Undefined Undefined [(''indent'', Num 10)])) = Inr runs"
    by (simp add: normalizeText_Bullet kids normalizeStyleColor_def styleOrEmpty_def get_def)
  from bullet_breakLine_and_marker [OF kids _ runs] nb runs
  show ?thesis
    by (auto simp: exampleBullet_def bulletValue_def)
qed

text \<open>
  The claim as stated fails for a bullet inside a bullet: the inner bullet's run keeps
  its own marker, so two runs carry the marker value \<^verbatim>\<open>true\<close>.
\<close>

theorem bullet_breakLine_and_marker_counterexample:
  "map_sum id (map part_bullet)
     (normalizeText exampleColor exampleToString exampleNestedBullet)
     = Inr [Some (Bool True), Some (Bool True)]"
  by (simp add: exampleNestedBullet_def eval_text)

text \<open>
  What the bullet branch does with the styles, run by run: the style of each run is the
  marker's style (with its color canonicalized) overwritten by every property that the
  nested run's own style has, whatever that property holds. The run of a link or of
  another element always has the property \<^verbatim>\<open>color\<close>, holding \<^verbatim>\<open>undefined\<close> when the element
  gave no color.
\<close>

lemma bullet_style_key_merge:
  assumes kids: "normalizeText Color toString children = Inr kids"
    and color: "normalizeStyleColor Color style = Inr parentColor"
    and runs: "normalizeText Color toString
                 (Element (TextBullet children style rtlMode lang bulletProps)) = Inr runs"
  shows "length runs = length kids
       \<and> (\<forall>i<length runs. \<forall>key.
             part_style (runs ! i) key =
               (case part_style (kids ! i) key of
                  Some own \<Rightarrow> Some own
                | None \<Rightarrow> ((styleOrEmpty style)(''color'' \<mapsto> parentColor)) key))"
proof -
  from bullet_runs_nth [OF kids runs] color have
    len: "length runs = length kids" and
    nth: "\<And>i. i < length kids \<Longrightarrow> runs ! i =
                 bulletChildPart rtlMode lang (bulletValue bulletProps)
                   ((styleOrEmpty style)(''color'' \<mapsto> parentColor)) (length kids) (i, kids ! i)"
    by auto
  show ?thesis
    using len by (auto simp: nth bulletChildPart_simps map_add_def split: option.splits)
qed

text \<open>
  C2: the code at a red, bold bullet around the string "a" and a link that has no style
  at all. Both runs take \<^verbatim>\<open>bold\<close> from the marker, and the run of the string takes the
  marker's color FF0000. The run of the link does not define a color, and the marker's
  color does not fill the gap: the run is built with the property \<^verbatim>\<open>color\<close> holding
  \<^verbatim>\<open>undefined\<close>, which the spread \<^verbatim>\<open>...childPart.style\<close> writes over the marker's color.
\<close>

theorem bullet_color_on_link:
  "map_sum id (map part_text)
     (normalizeText exampleColor exampleToString exampleColoredBullet)
     = Inr [''a'', ''b'']
   \<and> map_sum id (map (style_at ''color''))
       (normalizeText exampleColor exampleToString exampleColoredBullet)
     = Inr [Some (Str ''FF0000''), Some Undefined]
   \<and> map_sum id (map (style_at ''bold''))
       (normalizeText exampleColor exampleToString exampleColoredBullet)
     = Inr [Some (Bool True), Some (Bool True)]"
  by (simp add: exampleColoredBullet_def style_at_def eval_text)

text \<open>
  C9: the code at a bullet with \<^verbatim>\<open>rtlMode = true\<close> and \<^verbatim>\<open>lang = "he"\<close> around the string
  "a" and a link that gives neither. The run of the string takes both from the marker;
  the run of the link has both properties holding \<^verbatim>\<open>undefined\<close>, which the spread
  \<^verbatim>\<open>...childPart\<close> writes over the marker's values.
\<close>

theorem bullet_rtlMode_lang_on_link:
  "map_sum id (map part_rtlMode)
     (normalizeText exampleColor exampleToString exampleRtlBullet)
     = Inr [Some (Bool True), Some Undefined]
   \<and> map_sum id (map part_lang)
       (normalizeText exampleColor exampleToString exampleRtlBullet)
     = Inr [Some (Str ''he''), Some Undefined]"
  by (simp add: exampleRtlBullet_def eval_text)

text \<open>
  C8: \<^verbatim>\<open>normalizeText\<close> on an array is the concatenation, in order, of \<^verbatim>\<open>normalizeText\<close> on
  each element: when every element normalizes, the runs are the elements' runs one after
  the other, and when one throws, the whole throws. The function is a function of its
  input alone: in this embedding it is a HOL function, so two calls on one input are
  equal by construction.
\<close>

theorem normalizeText_array_concat:
  "normalizeText Color toString (ArrayChild cs)
     = concat_results (map (normalizeText Color toString) cs)
   \<and> (\<forall>runss. map (normalizeText Color toString) cs = map Inr runss \<longrightarrow>
         normalizeText Color toString (ArrayChild cs) = Inr (concat runss))
   \<and> (\<forall>err. Inl err \<in> set (map (normalizeText Color toString) cs) \<longrightarrow>
         (\<exists>err'. normalizeText Color toString (ArrayChild cs) = Inl err'))"
  using concat_results_Inl [of _ "map (normalizeText Color toString) cs"]
  by (auto simp: normalizeText_Array concat_results_Inr)

theorem normalizeText_array_concat_witness:
  "normalizeText exampleColor exampleToString
     (ArrayChild [StringChild ''a'', ArrayChild [StringChild ''b'', StringChild ''c'']])
     = Inr [plainTextPart ''a'', plainTextPart ''b'', plainTextPart ''c'']"
proof -
  have inner: "normalizeText exampleColor exampleToString
                 (ArrayChild [StringChild ''b'', StringChild ''c''])
               = Inr [plainTextPart ''b'', plainTextPart ''c'']"
    using normalizeText_array_concat
            [of exampleColor exampleToString "[StringChild ''b'', StringChild ''c'']"]
    by (simp add: normalizeText_String)
  show ?thesis
    using normalizeText_array_concat
            [of exampleColor exampleToString
               "[StringChild ''a'', ArrayChild [StringChild ''b'', StringChild ''c'']]"]
    by (simp add: normalizeText_String inner)
qed

section \<open>The presentation\<close>

lemma fold_entries:
  "fold (\<lambda>(k, v) obj. obj(k \<mapsto> v)) entries obj = obj ++ map_of (rev entries)"
  by (induction entries arbitrary: obj) (auto simp: map_add_upd_left ext map_add_def split: option.splits)

lemma fromEntries_map_of: "fromEntries entries = map_of (rev entries)"
  by (simp add: fromEntries_def fold_entries)

lemma fromEntries_last_wins:
  assumes "entries = before @ (k, v) # after" and "k \<notin> fst ` set after"
  shows "fromEntries entries k = Some v"
proof -
  have "map_of (rev after) k = None"
    using assms(2) by (simp add: map_of_eq_None_iff)
  then show ?thesis
    using assms(1) by (simp add: fromEntries_map_of map_add_def)
qed

lemma dom_fromEntries: "dom (fromEntries entries) = fst ` set entries"
  by (simp add: fromEntries_map_of dom_map_of_conv_image_fst)

lemma slideChildren_filter:
  "map (\<lambda>slideProps. FElement (SlideElement slideProps)) (slideChildren children)
     = filter (\<lambda>child. \<exists>slideProps. child = FElement (SlideElement slideProps)) children"
proof (induction children)
  case Nil
  show ?case by (simp add: slideChildren_def)
next
  case (Cons c cs)
  show ?case
  proof (cases c)
    case (FElement e)
    with Cons show ?thesis by (cases e) (simp_all add: slideChildren_def)
  qed (use Cons in \<open>simp_all add: slideChildren_def\<close>)
qed

lemma masterSlideChildren_filter:
  "map (\<lambda>masterProps. FElement (MasterSlideElement masterProps)) (masterSlideChildren children)
     = filter (\<lambda>child. \<exists>masterProps. child = FElement (MasterSlideElement masterProps)) children"
proof (induction children)
  case Nil
  show ?case by (simp add: masterSlideChildren_def)
next
  case (Cons c cs)
  show ?case
  proof (cases c)
    case (FElement e)
    with Cons show ?thesis by (cases e) (simp_all add: masterSlideChildren_def)
  qed (use Cons in \<open>simp_all add: masterSlideChildren_def\<close>)
qed

lemma slideChildren_kept:
  "slideChildren
     (filter (\<lambda>child. (\<exists>slideProps. child = FElement (SlideElement slideProps))
                \<or> (\<exists>masterProps. child = FElement (MasterSlideElement masterProps))) children)
     = slideChildren children"
proof (induction children)
  case Nil
  show ?case by (simp add: slideChildren_def)
next
  case (Cons c cs)
  show ?case
  proof (cases c)
    case (FElement e)
    with Cons show ?thesis by (cases e) (simp_all add: slideChildren_def)
  qed (use Cons in \<open>simp_all add: slideChildren_def\<close>)
qed

lemma masterSlideChildren_kept:
  "masterSlideChildren
     (filter (\<lambda>child. (\<exists>slideProps. child = FElement (SlideElement slideProps))
                \<or> (\<exists>masterProps. child = FElement (MasterSlideElement masterProps))) children)
     = masterSlideChildren children"
proof (induction children)
  case Nil
  show ?case by (simp add: masterSlideChildren_def)
next
  case (Cons c cs)
  show ?case
  proof (cases c)
    case (FElement e)
    with Cons show ?thesis by (cases e) (simp_all add: masterSlideChildren_def)
  qed (use Cons in \<open>simp_all add: masterSlideChildren_def\<close>)
qed

lemma normalizeMasterSlide_name:
  "normalizeMasterSlide Color toString props = Inr m \<Longrightarrow> name m = master_name props"
  by (auto simp: normalizeMasterSlide_def Let_def split: sum.splits if_splits)

text \<open>
  C6: when a presentation with children normalizes, its slides are the normalizations
  of those flattened children that are slide elements, one for one and in the order of
  the children; its master slides are the normalizations of the children that are
  master-slide elements, keyed by name, so that each name has one entry, the
  normalization of the last master slide declared with that name; and every other child
  is ignored: a presentation whose slide and master-slide children are the same, in the
  same order, normalizes to the same result, whatever else stands among them.
\<close>

theorem normalizeJsx_children:
  assumes ok: "normalizeJsx Color toString props = Inr pres"
    and t: "truthy_child (props_children props)"
  shows "list_all2 (\<lambda>child slide. \<exists>slideProps.
             child = FElement (SlideElement slideProps)
             \<and> normalizeSlide Color toString slideProps = Inr slide)
           (filter (\<lambda>child. \<exists>slideProps. child = FElement (SlideElement slideProps))
              (flattenChildren (props_children props)))
           (slides pres)
       \<and> (\<exists>masters.
             list_all2 (\<lambda>child master. \<exists>masterProps.
                 child = FElement (MasterSlideElement masterProps)
                 \<and> normalizeMasterSlide Color toString masterProps = Inr master
                 \<and> name master = master_name masterProps)
               (filter (\<lambda>child. \<exists>masterProps. child = FElement (MasterSlideElement masterProps))
                  (flattenChildren (props_children props)))
               masters
             \<and> dom (masterSlides pres) = name ` set masters
             \<and> (\<forall>before master after.
                   masters = before @ master # after \<and> name master \<notin> name ` set after \<longrightarrow>
                   masterSlides pres (name master) = Some master))
       \<and> (\<forall>children'.
             truthy_child children'
             \<and> filter (\<lambda>child. (\<exists>slideProps. child = FElement (SlideElement slideProps))
                          \<or> (\<exists>masterProps. child = FElement (MasterSlideElement masterProps)))
                 (flattenChildren children')
               = filter (\<lambda>child. (\<exists>slideProps. child = FElement (SlideElement slideProps))
                            \<or> (\<exists>masterProps. child = FElement (MasterSlideElement masterProps)))
                   (flattenChildren (props_children props)) \<longrightarrow>
             normalizeJsx Color toString (props\<lparr>props_children := children'\<rparr>) = Inr pres)"
proof -
  let ?flat = "flattenChildren (props_children props)"
  from ok t obtain masters where
    sl: "array_map (normalizeSlide Color toString) (slideChildren ?flat) = Inr (slides pres)" and
    ms: "array_map (normalizeMasterSlide Color toString) (masterSlideChildren ?flat) = Inr masters" and
    mp: "masterSlides pres = fromEntries (map (\<lambda>slide. (name slide, slide)) masters)"
    by (auto simp: normalizeJsx_def Let_def split: sum.splits)
  have "list_all2 (\<lambda>slideProps slide. normalizeSlide Color toString slideProps = Inr slide)
           (slideChildren ?flat) (slides pres)"
    using sl by (simp add: array_map_Inr_iff)
  then have "list_all2 (\<lambda>child slide. \<exists>slideProps.
             child = FElement (SlideElement slideProps)
             \<and> normalizeSlide Color toString slideProps = Inr slide)
           (map (\<lambda>slideProps. FElement (SlideElement slideProps)) (slideChildren ?flat))
           (slides pres)"
    unfolding list_all2_map1 by (rule list_all2_mono) simp
  then have 1: "list_all2 (\<lambda>child slide. \<exists>slideProps.
             child = FElement (SlideElement slideProps)
             \<and> normalizeSlide Color toString slideProps = Inr slide)
           (filter (\<lambda>child. \<exists>slideProps. child = FElement (SlideElement slideProps)) ?flat)
           (slides pres)"
    by (simp only: slideChildren_filter)
  have "list_all2 (\<lambda>masterProps master. normalizeMasterSlide Color toString masterProps = Inr master)
           (masterSlideChildren ?flat) masters"
    using ms by (simp add: array_map_Inr_iff)
  then have "list_all2 (\<lambda>child master. \<exists>masterProps.
                 child = FElement (MasterSlideElement masterProps)
                 \<and> normalizeMasterSlide Color toString masterProps = Inr master
                 \<and> name master = master_name masterProps)
               (map (\<lambda>masterProps. FElement (MasterSlideElement masterProps))
                  (masterSlideChildren ?flat))
               masters"
    unfolding list_all2_map1 by (rule list_all2_mono) (simp add: normalizeMasterSlide_name)
  then have 2: "list_all2 (\<lambda>child master. \<exists>masterProps.
                 child = FElement (MasterSlideElement masterProps)
                 \<and> normalizeMasterSlide Color toString masterProps = Inr master
                 \<and> name master = master_name masterProps)
               (filter (\<lambda>child. \<exists>masterProps. child = FElement (MasterSlideElement masterProps))
                  ?flat)
               masters"
    by (simp only: masterSlideChildren_filter)
  have 3: "dom (masterSlides pres) = name ` set masters"
    by (simp add: mp dom_fromEntries image_image)
  have 4: "masterSlides pres (name master) = Some master"
    if "masters = before @ master # after" "name master \<notin> name ` set after"
    for before master after
    unfolding mp
    by (rule fromEntries_last_wins
          [of _ "map (\<lambda>slide. (name slide, slide)) before" _ _
              "map (\<lambda>slide. (name slide, slide)) after"])
       (use that in \<open>simp_all add: image_image\<close>)
  have 5: "normalizeJsx Color toString (props\<lparr>props_children := children'\<rparr>) = Inr pres"
    if "truthy_child children'"
       "filter (\<lambda>child. (\<exists>slideProps. child = FElement (SlideElement slideProps))
                          \<or> (\<exists>masterProps. child = FElement (MasterSlideElement masterProps)))
                 (flattenChildren children')
               = filter (\<lambda>child. (\<exists>slideProps. child = FElement (SlideElement slideProps))
                            \<or> (\<exists>masterProps. child = FElement (MasterSlideElement masterProps)))
                   ?flat"
    for children'
  proof -
    have a: "slideChildren (flattenChildren children') = slideChildren ?flat"
      using arg_cong [OF that(2), of slideChildren] by (simp only: slideChildren_kept)
    have b: "masterSlideChildren (flattenChildren children') = masterSlideChildren ?flat"
      using arg_cong [OF that(2), of masterSlideChildren]
      by (simp only: masterSlideChildren_kept)
    have "normalizeJsx Color toString (props\<lparr>props_children := children'\<rparr>)
            = normalizeJsx Color toString props"
      using t that(1) by (simp add: normalizeJsx_def Let_def a b cong: sum.case_cong)
    with ok show ?thesis by simp
  qed
  show ?thesis
    apply (intro conjI exI [of _ masters] allI impI)
        apply (rule 1)
       apply (rule 2)
      apply (rule 3)
     apply (elim conjE, erule 4, assumption)
    apply (elim conjE, erule 5, assumption)
    done
qed

theorem normalizeJsx_children_witness:
  "\<exists>pres first second slide1 slide2.
     normalizeJsx exampleColor exampleToString examplePresentationProps = Inr pres
     \<and> normalizeMasterSlide exampleColor exampleToString exampleMasterProps1 = Inr first
     \<and> normalizeMasterSlide exampleColor exampleToString exampleMasterProps2 = Inr second
     \<and> backgroundColor first = Str ''FF0000''
     \<and> backgroundColor second = Str ''00FF00''
     \<and> masterSlides pres ''m'' = Some second
     \<and> dom (masterSlides pres) = {''m''}
     \<and> normalizeSlide exampleColor exampleToString exampleSlideProps = Inr slide1
     \<and> normalizeSlide exampleColor exampleToString exampleSlideProps2 = Inr slide2
     \<and> notes' slide1 = Undefined
     \<and> notes' slide2 = Str ''second''
     \<and> slides pres = [slide1, slide2]"
proof -
  define first :: InternalMasterSlide where
    "first = \<lparr>objects = [], backgroundColor = Str ''FF0000'', backgroundImage = Null, name = ''m''\<rparr>"
  define second :: InternalMasterSlide where
    "second = \<lparr>objects = [], backgroundColor = Str ''00FF00'', backgroundImage = Null, name = ''m''\<rparr>"
  have f: "normalizeMasterSlide exampleColor exampleToString exampleMasterProps1 = Inr first"
    by (simp add: first_def normalizeMasterSlide_def exampleMasterProps1_def
          normalizeBackgroundColor_def styleOrEmpty_def get_def normalizeHexOrComplexColor_def
          exampleColor_def double_val_def toUpperCase_def toUpperCase_char_def substring1_def)
  have g: "normalizeMasterSlide exampleColor exampleToString exampleMasterProps2 = Inr second"
    by (simp add: second_def normalizeMasterSlide_def exampleMasterProps2_def
          normalizeBackgroundColor_def styleOrEmpty_def get_def normalizeHexOrComplexColor_def
          exampleColor_def double_val_def toUpperCase_def toUpperCase_char_def substring1_def)
  obtain slide1 where s1: "normalizeSlide exampleColor exampleToString exampleSlideProps = Inr slide1"
    and n1: "notes' slide1 = Undefined"
    by (simp add: normalizeSlide_def exampleSlideProps_def normalizeBackgroundColor_def
          styleOrEmpty_def get_def normalizeChildObjects_def normalizeSlideObject.simps
          colorOrNull_def normalizeCoordinates_def normalizeCoordinate_def)
  obtain slide2 where s2: "normalizeSlide exampleColor exampleToString exampleSlideProps2 = Inr slide2"
    and n2: "notes' slide2 = Str ''second''"
    by (simp add: normalizeSlide_def exampleSlideProps2_def normalizeBackgroundColor_def
          styleOrEmpty_def get_def)
  have sc: "slideChildren (flattenChildren (props_children examplePresentationProps))
              = [exampleSlideProps, exampleSlideProps2]"
    by (simp add: examplePresentationProps_def slideChildren_def)
  have mc: "masterSlideChildren (flattenChildren (props_children examplePresentationProps))
              = [exampleMasterProps1, exampleMasterProps2]"
    by (simp add: examplePresentationProps_def masterSlideChildren_def)
  have fs: "filter (\<lambda>child. \<exists>slideProps. child = FElement (SlideElement slideProps))
              (flattenChildren (props_children examplePresentationProps))
            = [FElement (SlideElement exampleSlideProps), FElement (SlideElement exampleSlideProps2)]"
    by (simp add: examplePresentationProps_def)
  have fm: "filter (\<lambda>child. \<exists>masterProps. child = FElement (MasterSlideElement masterProps))
              (flattenChildren (props_children examplePresentationProps))
            = [FElement (MasterSlideElement exampleMasterProps1),
               FElement (MasterSlideElement exampleMasterProps2)]"
    by (simp add: examplePresentationProps_def)
  have t: "truthy_child (props_children examplePresentationProps)"
    by (simp add: examplePresentationProps_def)
  obtain pres where p: "normalizeJsx exampleColor exampleToString examplePresentationProps = Inr pres"
    using t by (simp add: normalizeJsx_def Let_def sc mc f g s1 s2)
  note th = normalizeJsx_children [OF p t, unfolded fs fm]
  have "list_all2 (\<lambda>child slide. \<exists>slideProps.
             child = FElement (SlideElement slideProps)
             \<and> normalizeSlide exampleColor exampleToString slideProps = Inr slide)
          [FElement (SlideElement exampleSlideProps), FElement (SlideElement exampleSlideProps2)]
          (slides pres)"
    by (rule th [THEN conjunct1])
  then have sl: "slides pres = [slide1, slide2]"
    by (auto simp: list_all2_Cons1 s1 s2)
  from th [THEN conjunct2, THEN conjunct1] obtain masters where
    m: "list_all2 (\<lambda>child master. \<exists>masterProps.
            child = FElement (MasterSlideElement masterProps)
            \<and> normalizeMasterSlide exampleColor exampleToString masterProps = Inr master
            \<and> name master = master_name masterProps)
          [FElement (MasterSlideElement exampleMasterProps1),
           FElement (MasterSlideElement exampleMasterProps2)] masters" and
    d: "dom (masterSlides pres) = name ` set masters" and
    w: "\<forall>before master after.
          masters = before @ master # after \<and> name master \<notin> name ` set after \<longrightarrow>
          masterSlides pres (name master) = Some master"
    by (elim exE conjE) (rule that)
  from m have masters: "masters = [first, second]"
    by (auto simp: list_all2_Cons1 f g)
  have "masterSlides pres (name second) = Some second"
    using w [rule_format, of "[first]" second "[]"] by (simp add: masters)
  then show ?thesis
    using p f g d s1 s2 n1 n2 sl by (auto simp: masters first_def second_def)
qed

end
